theory Spec2Isabelle
  imports Main "HOL-Library.Multiset"
begin

section \<open>JavaScript values used by the chat screens\<close>

text \<open>
  Identifiers (uuids, column names, role names) are \<open>string\<close>s. A message body typed by
  the user is a sequence of UTF-16 code units, because \<open>String.prototype.trim\<close> is
  defined on code units: it strips the ECMAScript WhiteSpace and LineTerminator code
  points from both ends.
\<close>

type_synonym jstext = "nat list"

definition isWhiteSpace :: "nat \<Rightarrow> bool" where
  "isWhiteSpace c \<longleftrightarrow>
     c \<in> set [9, 10, 11, 12, 13, 32, 160, 5760, 8232, 8233, 8239, 8287, 12288, 65279]
     \<or> (8192 \<le> c \<and> c \<le> 8202)"

definition trim :: "jstext \<Rightarrow> jstext" where
  "trim s = rev (dropWhile isWhiteSpace (rev (dropWhile isWhiteSpace s)))"

text \<open>
  A row of the \<open>messages\<close> table (\<open>Tables<'messages'>["Row"]\<close> of
  \<open>src/types/database.ts\<close>). The column \<open>id\<close> is called \<open>row_id\<close> here; the
  instant \<open>created_at\<close> is a number (the store orders by the instant, the screens only
  format it).
\<close>

record message_row =
  row_id :: string
  chat_id :: string
  created_at :: nat
  message :: jstext
  patient_id :: string
  sender_id :: string
  sender_type :: string

text \<open>The columns a realtime filter or a query can compare with \<open>eq\<close>.\<close>

definition message_column :: "message_row \<Rightarrow> string \<Rightarrow> string option" where
  "message_column r c =
     (if c = ''id'' then Some (row_id r)
      else if c = ''chat_id'' then Some (chat_id r)
      else if c = ''patient_id'' then Some (patient_id r)
      else if c = ''sender_id'' then Some (sender_id r)
      else if c = ''sender_type'' then Some (sender_type r)
      else None)"

text \<open>
  The \<open>Message\<close> interface of \<open>src/app/chat/[userId].tsx\<close>, the screen keyed by the
  sender/receiver pair.
\<close>

record direct_message =
  dm_id :: string
  dm_sender_id :: string
  dm_receiver_id :: string
  dm_content :: jstext
  dm_created_at :: nat

definition direct_column :: "direct_message \<Rightarrow> string \<Rightarrow> string option" where
  "direct_column r c =
     (if c = ''id'' then Some (dm_id r)
      else if c = ''sender_id'' then Some (dm_sender_id r)
      else if c = ''receiver_id'' then Some (dm_receiver_id r)
      else None)"

section \<open>The realtime client\<close>

text \<open>
  The screens hand a callback to the hosted realtime service and later remove the
  channel again. The service is outside the repository; it is modelled as the list of
  channels currently registered with the client. A channel carries the object identity
  \<open>cid\<close> the client gave it, its topic, the table, event type and \<open>column=eq.value\<close>
  filter it listens to, and the callback, which the screens always write as a
  functional update of the message sequence.
\<close>

datatype pg_filter = Eq string string

record 'r channel =
  cid :: nat
  topic :: string
  ch_table :: string
  ch_event :: string
  ch_filter :: pg_filter
  callback :: "'r \<Rightarrow> 'r list \<Rightarrow> 'r list"

record 'r realtime =
  channels :: "'r channel list"
  next_cid :: nat

record 'r change =
  ev_table :: string
  ev_type :: string
  new :: 'r

definition no_channels :: "'r realtime" where
  "no_channels = \<lparr>channels = [], next_cid = 0\<rparr>"

text \<open>
  \<open>supabase.channel(name).on('postgres_changes', {event, table, filter}, cb).subscribe()\<close>
  and the older \<open>supabase.from('table:filter').on(event, cb).subscribe()\<close>: a new channel
  object is created and registered.
\<close>

definition open_channel ::
  "string \<Rightarrow> string \<Rightarrow> string \<Rightarrow> pg_filter \<Rightarrow> ('r \<Rightarrow> 'r list \<Rightarrow> 'r list) \<Rightarrow> 'r realtime
     \<Rightarrow> 'r channel \<times> 'r realtime" where
  "open_channel name tbl evt flt cb rt =
     (let ch = \<lparr>cid = next_cid rt, topic = name, ch_table = tbl, ch_event = evt,
                 ch_filter = flt, callback = cb\<rparr>
      in (ch, rt\<lparr>channels := channels rt @ [ch], next_cid := Suc (next_cid rt)\<rparr>))"

text \<open>\<open>supabase.removeChannel(ch)\<close> and \<open>supabase.removeSubscription(ch)\<close>.\<close>

definition removeChannel :: "'r channel \<Rightarrow> 'r realtime \<Rightarrow> 'r realtime" where
  "removeChannel ch rt = rt\<lparr>channels := filter (\<lambda>c. cid c \<noteq> cid ch) (channels rt)\<rparr>"

fun matches :: "('r \<Rightarrow> string \<Rightarrow> string option) \<Rightarrow> pg_filter \<Rightarrow> 'r \<Rightarrow> bool" where
  "matches col (Eq c v) r = (col r c = Some v)"

text \<open>One change event reaches one channel: the callback runs when the binding matches.\<close>

definition deliver_to ::
  "('r \<Rightarrow> string \<Rightarrow> string option) \<Rightarrow> 'r change \<Rightarrow> 'r channel \<Rightarrow> 'r list \<Rightarrow> 'r list" where
  "deliver_to col ev ch msgs =
     (if ch_table ch = ev_table ev \<and> ch_event ch = ev_type ev \<and> matches col (ch_filter ch) (new ev)
      then callback ch (new ev) msgs else msgs)"

text \<open>The service offers the event to every registered channel, in registration order.\<close>

definition dispatch ::
  "('r \<Rightarrow> string \<Rightarrow> string option) \<Rightarrow> 'r change \<Rightarrow> 'r realtime \<Rightarrow> 'r list \<Rightarrow> 'r list" where
  "dispatch col ev rt msgs = foldl (\<lambda>ms ch. deliver_to col ev ch ms) msgs (channels rt)"

definition insert_event :: "'r \<Rightarrow> 'r change" where
  "insert_event r = \<lparr>ev_table = ''messages'', ev_type = ''INSERT'', new = r\<rparr>"

section \<open>Requests to the store and asynchronous functions\<close>

text \<open>
  A PostgREST answer is the pair \<open>{ data, error }\<close>. An \<open>async\<close> function of a screen
  is a program that updates the screen state (\<open>SetState\<close>, each \<open>setX\<close> call) and
  awaits requests (\<open>Await\<close>); what it does next depends on the answer.
\<close>

record pg_error =
  code :: string
  err_message :: string
  instanceof_Error :: bool

datatype js_error = PostgrestError pg_error | TypeError string

record message_insert =
  ins_message :: jstext
  ins_sender_id :: string
  ins_patient_id :: "string option"
  ins_chat_id :: string
  ins_sender_type :: "string option"

datatype request =
    SelectChatSingle string string
  | InsertChat string string
  | InsertMessage message_insert
  | SelectMessages pg_filter

datatype payload = ChatId string | Rows "message_row list"

record response =
  data :: "payload option"
  error :: "pg_error option"

datatype 's prog =
    Done
  | SetState "'s \<Rightarrow> 's" "'s prog"
  | Await request "response \<Rightarrow> 's prog"

text \<open>
  Running a program against a script of answers: the requests issued, the state
  reached, and whether the program ran to its end (\<open>False\<close>: still awaiting).
\<close>

primrec replay :: "'s prog \<Rightarrow> response list \<Rightarrow> 's \<Rightarrow> request list \<times> 's \<times> bool" where
  "replay Done rs s = ([], s, True)"
| "replay (SetState f p) rs s = replay p rs (f s)"
| "replay (Await rq k) rs s =
     (case rs of
        [] \<Rightarrow> ([rq], s, False)
      | r # rs' \<Rightarrow> (case replay (k r) rs' s of (qs, s', fin) \<Rightarrow> (rq # qs, s', fin)))"

section \<open>The store\<close>

text \<open>
  The hosted database, as far as the chat screens use it: the \<open>chats\<close> and
  \<open>messages\<close> tables of \<open>src/types/database.ts\<close>. The migration gives
  \<open>messages.id\<close> the default \<open>gen_random_uuid()\<close> and \<open>created_at\<close> the default
  \<open>now()\<close>; both values come from the store and are passed in as a \<open>stamp\<close>.
  \<open>patient_id\<close> and \<open>sender_type\<close> are \<open>NOT NULL\<close> without default. \<open>.single()\<close>
  answers with error \<open>PGRST116\<close> unless exactly one row matches. \<open>.order('created_at',
  { ascending: true })\<close> is a sort by \<open>created_at\<close> (the order of rows with equal
  instants is not fixed by the store; the model keeps their insertion order). The
  repository declares no constraint on \<open>chats\<close>; the model checks the primary key
  only. Refusals by row-level security and network failures are not produced by this
  model of the store; they are answers a script can give (\<open>replay\<close>).
\<close>

record chat_row =
  chat_row_id :: string
  chat_patient_id :: string
  chat_doctor_id :: string
  chat_created_at :: nat

record store =
  chats :: "chat_row list"
  msgs :: "message_row list"

record stamp =
  uuid :: string
  now :: nat

definition ok :: "payload option \<Rightarrow> response" where
  "ok d = \<lparr>data = d, error = None\<rparr>"

definition failure :: "string \<Rightarrow> string \<Rightarrow> response" where
  "failure c m = \<lparr>data = None, error = Some \<lparr>code = c, err_message = m, instanceof_Error = False\<rparr>\<rparr>"

definition chats_of :: "string \<Rightarrow> string \<Rightarrow> store \<Rightarrow> chat_row list" where
  "chats_of p d S = filter (\<lambda>c. chat_patient_id c = p \<and> chat_doctor_id c = d) (chats S)"

definition select_messages :: "pg_filter \<Rightarrow> store \<Rightarrow> message_row list" where
  "select_messages flt S = sort_key created_at (filter (matches message_column flt) (msgs S))"

fun serve :: "stamp \<Rightarrow> request \<Rightarrow> store \<Rightarrow> response \<times> store" where
  "serve t (SelectChatSingle p d) S =
     (case chats_of p d S of
        [c] \<Rightarrow> (ok (Some (ChatId (chat_row_id c))), S)
      | _ \<Rightarrow> (failure ''PGRST116'' ''JSON object requested, multiple (or no) rows returned'', S))"
| "serve t (InsertChat p d) S =
     (if uuid t \<in> set (map chat_row_id (chats S))
      then (failure ''23505'' ''duplicate key value violates unique constraint'', S)
      else (ok (Some (ChatId (uuid t))),
            S\<lparr>chats := chats S @ [\<lparr>chat_row_id = uuid t, chat_patient_id = p,
                                     chat_doctor_id = d, chat_created_at = now t\<rparr>]\<rparr>))"
| "serve t (InsertMessage i) S =
     (case (ins_patient_id i, ins_sender_type i) of
        (Some p, Some ty) \<Rightarrow>
          (if uuid t \<in> set (map row_id (msgs S))
           then (failure ''23505'' ''duplicate key value violates unique constraint'', S)
           else (ok None,
                 S\<lparr>msgs := msgs S @ [\<lparr>row_id = uuid t, chat_id = ins_chat_id i,
                                       created_at = now t, message = ins_message i,
                                       patient_id = p, sender_id = ins_sender_id i,
                                       sender_type = ty\<rparr>]\<rparr>))
      | _ \<Rightarrow> (failure ''23502'' ''null value violates not-null constraint'', S))"
| "serve t (SelectMessages flt) S = (ok (Some (Rows (select_messages flt S))), S)"

text \<open>Running a program against the store, one stamp per request.\<close>

primrec run :: "'s prog \<Rightarrow> stamp list \<Rightarrow> store \<Rightarrow> 's \<Rightarrow> request list \<times> 's \<times> store \<times> bool" where
  "run Done ts S s = ([], s, S, True)"
| "run (SetState f p) ts S s = run p ts S (f s)"
| "run (Await rq k) ts S s =
     (case ts of
        [] \<Rightarrow> ([rq], s, S, False)
      | t # ts' \<Rightarrow>
          (case serve t rq S of
             (r, S') \<Rightarrow>
               (case run (k r) ts' S' s of (qs, s', S'', fin) \<Rightarrow> (rq # qs, s', S'', fin))))"

section \<open>The patient chat screen, \<open>src/app/chat/[patientId].tsx\<close>\<close>

text \<open>
  The \<open>Patient\<close> and \<open>Doctor\<close> interfaces: \<open>id\<close> and \<open>profiles.full_name\<close>. The
  screen state is the \<open>useState\<close> cells; \<open>error\<close> is called \<open>screen_error\<close> here.
  What the screen shows or logs besides its state is recorded too: \<open>alerts\<close> holds the
  \<open>Alert.alert(title, text)\<close> calls, \<open>console\<close> the \<open>console.error(label, err)\<close>
  calls. Scrolling (\<open>scrollToBottom\<close>) touches no state and is left out.
\<close>

record person =
  person_id :: string
  full_name :: string

record chat_screen =
  messages :: "message_row list"
  newMessage :: jstext
  loading :: bool
  screen_error :: "string option"
  sending :: bool
  patient :: "person option"
  currentDoctor :: "person option"
  alerts :: "(string \<times> string) list"
  console :: "(string \<times> js_error) list"

text \<open>
  \<open>channelRef\<close> is a ref, not state; it lives beside the screen state together with the
  realtime client.
\<close>

record cs_world =
  screen :: chat_screen
  channelRef :: "message_row channel option"
  supabase :: "message_row realtime"

definition cs_initial :: cs_world where
  "cs_initial =
     \<lparr>screen = \<lparr>messages = [], newMessage = [], loading = True, screen_error = None,
                 sending = False, patient = None, currentDoctor = None, alerts = [],
                 console = []\<rparr>,
      channelRef = None, supabase = no_channels\<rparr>"

text \<open>Lines 55 to 58: \<open>setMessages((prev) => [...prev, payload.new as Message])\<close>.\<close>

definition handleNewMessage :: "message_row \<Rightarrow> message_row list \<Rightarrow> message_row list" where
  "handleNewMessage payload_new prev = prev @ [payload_new]"

text \<open>Lines 95 to 110; \<open>data || []\<close> is \<open>rows_or_empty\<close>.\<close>

definition rows_or_empty :: "payload option \<Rightarrow> message_row list" where
  "rows_or_empty d = (case d of Some (Rows xs) \<Rightarrow> xs | _ \<Rightarrow> [])"

definition fetchMessages :: "string \<Rightarrow> chat_screen prog" where
  "fetchMessages patientId =
     Await (SelectMessages (Eq ''patient_id'' patientId)) (\<lambda>r.
       case error r of
         Some e \<Rightarrow>
           SetState (\<lambda>v. v\<lparr>console := console v @ [(''Error fetching messages:'', PostgrestError e)]\<rparr>)
             (SetState (\<lambda>v. v\<lparr>screen_error :=
                  Some (if instanceof_Error e then err_message e else ''Failed to load messages.'')\<rparr>)
                Done)
       | None \<Rightarrow> SetState (\<lambda>v. v\<lparr>messages := rows_or_empty (data r)\<rparr>) Done)"

text \<open>The template literal \<open>${Date.now()}\<close>: the decimal digits of the clock reading.\<close>

function decimal :: "nat \<Rightarrow> string" where
  "decimal n = (if n < 10 then [char_of (48 + n)] else decimal (n div 10) @ [char_of (48 + n mod 10)])"
  by pat_completeness auto
termination
  by (relation "measure (\<lambda>n. n)") auto

declare decimal.simps [simp del]

text \<open>
  Lines 112 to 135: the channel in the ref, if any, is removed first; then a channel named
  \<open>chat:${patientId}:${Date.now()}\<close> is opened on inserts into \<open>messages\<close> with the
  filter \<open>patient_id=eq.${patientId}\<close> and stored in the ref.
\<close>

definition subscribeToMessages :: "string \<Rightarrow> nat \<Rightarrow> cs_world \<Rightarrow> cs_world" where
  "subscribeToMessages patientId date_now w =
     (let rt = (case channelRef w of
                  Some c \<Rightarrow> removeChannel c (supabase w)
                | None \<Rightarrow> supabase w);
          opened = open_channel (''chat:'' @ patientId @ '':'' @ decimal date_now)
                     ''messages'' ''INSERT'' (Eq ''patient_id'' patientId) handleNewMessage rt
      in w\<lparr>channelRef := Some (fst opened), supabase := snd opened\<rparr>)"

text \<open>The function the effect returns (lines 159 to 164).\<close>

definition cleanup :: "cs_world \<Rightarrow> cs_world" where
  "cleanup w =
     (case channelRef w of
        Some c \<Rightarrow> w\<lparr>channelRef := None, supabase := removeChannel c (supabase w)\<rparr>
      | None \<Rightarrow> w)"

text \<open>The \<open>catch\<close> and \<open>finally\<close> blocks of \<open>sendMessage\<close>.\<close>

definition send_failed :: "js_error \<Rightarrow> chat_screen prog" where
  "send_failed e =
     SetState (\<lambda>v. v\<lparr>console := console v @ [(''Error sending message:'', e)]\<rparr>)
       (SetState (\<lambda>v. v\<lparr>alerts := alerts v @ [(''Error'', ''Failed to send message'')]\<rparr>)
          (SetState (\<lambda>v. v\<lparr>sending := False\<rparr>) Done))"

text \<open>\<open>chat?.id\<close> followed by \<open>if (!chatId)\<close>: a missing or empty id counts as absent.\<close>

definition truthy_id :: "payload option \<Rightarrow> string option" where
  "truthy_id d = (case d of Some (ChatId c) \<Rightarrow> (if c = [] then None else Some c) | _ \<Rightarrow> None)"

text \<open>
  Lines 172 to 196, the find-or-create of the \<open>chats\<close> record. \<open>found\<close> is the rest of
  the \<open>try\<close> block, \<open>thrown\<close> the \<open>catch\<close> block. The lookup error is thrown unless
  its code is \<open>PGRST116\<close> (\<open>if (chatError && chatError.code !== 'PGRST116') throw
  chatError\<close>); the error of the creating insert is always thrown (\<open>if (newChatError)
  throw newChatError\<close>); \<open>newChat.id\<close> on a missing row is a \<open>TypeError\<close>. An answer
  of the wrong shape counts as no row.
\<close>

definition resolveConversation ::
  "string \<Rightarrow> string \<Rightarrow> (string \<Rightarrow> 's prog) \<Rightarrow> (js_error \<Rightarrow> 's prog) \<Rightarrow> 's prog" where
  "resolveConversation patientId doctorId found thrown =
     Await (SelectChatSingle patientId doctorId) (\<lambda>r1.
       case (case error r1 of
               Some e \<Rightarrow> (if code e \<noteq> ''PGRST116'' then Some e else None)
             | None \<Rightarrow> None) of
         Some chatError \<Rightarrow> thrown (PostgrestError chatError)
       | None \<Rightarrow>
           (case truthy_id (data r1) of
              Some chatId \<Rightarrow> found chatId
            | None \<Rightarrow>
                Await (InsertChat patientId doctorId) (\<lambda>r2.
                  case error r2 of
                    Some newChatError \<Rightarrow> thrown (PostgrestError newChatError)
                  | None \<Rightarrow>
                      (case data r2 of
                         Some (ChatId c) \<Rightarrow> found c
                       | _ \<Rightarrow> thrown (TypeError ''Cannot read properties of null (reading id)'')))))"

text \<open>Lines 198 to 208: the insert into \<open>messages\<close> and what follows it.\<close>

definition insert_message :: "string \<Rightarrow> string \<Rightarrow> jstext \<Rightarrow> string \<Rightarrow> chat_screen prog" where
  "insert_message patientId doctorId body chatId =
     Await (InsertMessage \<lparr>ins_message = trim body, ins_sender_id = doctorId,
                           ins_patient_id = Some patientId, ins_chat_id = chatId,
                           ins_sender_type = Some ''doctor''\<rparr>) (\<lambda>r.
       case error r of
         Some e \<Rightarrow> send_failed (PostgrestError e)
       | None \<Rightarrow> SetState (\<lambda>v. v\<lparr>newMessage := []\<rparr>) (SetState (\<lambda>v. v\<lparr>sending := False\<rparr>) Done))"

text \<open>
  \<open>sendMessage\<close> (lines 167 to 215) reads \<open>newMessage\<close>, \<open>currentDoctor\<close> and
  \<open>sending\<close> from the render it was created in (\<open>v\<close>). The guard \<open>if
  (!newMessage.trim() || !currentDoctor || sending) return\<close> comes before the \<open>try\<close>,
  so nothing at all happens when it fires.
\<close>

definition sendMessage :: "string \<Rightarrow> chat_screen \<Rightarrow> chat_screen prog" where
  "sendMessage patientId v =
     (if trim (newMessage v) = [] \<or> currentDoctor v = None \<or> sending v then Done
      else case currentDoctor v of
             None \<Rightarrow> Done
           | Some doc \<Rightarrow>
               SetState (\<lambda>s. s\<lparr>sending := True\<rparr>)
                 (resolveConversation patientId (person_id doc)
                    (insert_message patientId (person_id doc) (newMessage v))
                    send_failed))"

text \<open>
  What can happen to a mounted screen, one event at a time: the context load sets the
  patient and the doctor, the user types, a fetch or a send runs against the answers it
  is given, the effect subscribes or cleans up, the realtime service delivers a change.
\<close>

datatype cs_event =
    ContextLoaded person person
  | Typed jstext
  | Fetched string "response list"
  | Sent string "response list"
  | Subscribe string nat
  | Cleanup
  | Live "message_row change"

fun cs_step :: "cs_world \<Rightarrow> cs_event \<Rightarrow> cs_world" where
  "cs_step w (ContextLoaded p d) = w\<lparr>screen := (screen w)\<lparr>patient := Some p, currentDoctor := Some d\<rparr>\<rparr>"
| "cs_step w (Typed t) = w\<lparr>screen := (screen w)\<lparr>newMessage := t\<rparr>\<rparr>"
| "cs_step w (Fetched pid rs) = w\<lparr>screen := fst (snd (replay (fetchMessages pid) rs (screen w)))\<rparr>"
| "cs_step w (Sent pid rs) = w\<lparr>screen := fst (snd (replay (sendMessage pid (screen w)) rs (screen w)))\<rparr>"
| "cs_step w (Subscribe pid t) = subscribeToMessages pid t w"
| "cs_step w Cleanup = cleanup w"
| "cs_step w (Live ev) =
     w\<lparr>screen := (screen w)\<lparr>messages := dispatch message_column ev (supabase w) (messages (screen w))\<rparr>\<rparr>"

section \<open>The chat component, \<open>src/components/RealTimeChat.tsx\<close>\<close>

record real_time_chat =
  rtc_messages :: "message_row list"
  input :: jstext
  rtc_console :: "(string \<times> js_error) list"

record rtc_world =
  rtc_screen :: real_time_chat
  subscription :: "message_row channel option"
  rtc_supabase :: "message_row realtime"

definition rtc_initial :: rtc_world where
  "rtc_initial =
     \<lparr>rtc_screen = \<lparr>rtc_messages = [], input = [], rtc_console = []\<rparr>,
      subscription = None, rtc_supabase = no_channels\<rparr>"

text \<open>Lines 47 to 60: on an error the function logs and returns.\<close>

definition rtc_fetchMessages :: "string \<Rightarrow> real_time_chat prog" where
  "rtc_fetchMessages chatId =
     Await (SelectMessages (Eq ''chat_id'' chatId)) (\<lambda>r.
       case error r of
         Some e \<Rightarrow>
           SetState (\<lambda>v. v\<lparr>rtc_console := rtc_console v @ [(''Error fetching messages:'', PostgrestError e)]\<rparr>)
             Done
       | None \<Rightarrow> SetState (\<lambda>v. v\<lparr>rtc_messages := rows_or_empty (data r)\<rparr>) Done)"

text \<open>The body of the effect (lines 34 to 40) and the function it returns (42 to 44).\<close>

definition rtc_subscribe :: "string \<Rightarrow> rtc_world \<Rightarrow> rtc_world" where
  "rtc_subscribe chatId w =
     (let opened = open_channel (''messages:chat_id=eq.'' @ chatId) ''messages'' ''INSERT''
                     (Eq ''chat_id'' chatId) (\<lambda>payload_new prev. prev @ [payload_new])
                     (rtc_supabase w)
      in w\<lparr>subscription := Some (fst opened), rtc_supabase := snd opened\<rparr>)"

definition rtc_cleanup :: "rtc_world \<Rightarrow> rtc_world" where
  "rtc_cleanup w =
     (case subscription w of
        Some c \<Rightarrow> w\<lparr>subscription := None, rtc_supabase := removeChannel c (rtc_supabase w)\<rparr>
      | None \<Rightarrow> w)"

text \<open>
  Lines 66 to 82: the row sent has \<open>chat_id\<close>, \<open>sender_id\<close> and \<open>message\<close> only; an error
  is logged, nothing else.
\<close>

definition rtc_sendMessage :: "string \<Rightarrow> string \<Rightarrow> real_time_chat \<Rightarrow> real_time_chat prog" where
  "rtc_sendMessage chatId currentUserId v =
     (if length (trim (input v)) = 0 then Done
      else Await (InsertMessage \<lparr>ins_message = trim (input v), ins_sender_id = currentUserId,
                                 ins_patient_id = None, ins_chat_id = chatId,
                                 ins_sender_type = None\<rparr>) (\<lambda>r.
             case error r of
               Some e \<Rightarrow>
                 SetState (\<lambda>s. s\<lparr>rtc_console := rtc_console s @ [(''Error sending message:'', PostgrestError e)]\<rparr>)
                   Done
             | None \<Rightarrow> SetState (\<lambda>s. s\<lparr>input := []\<rparr>) Done))"

text \<open>
  React runs the cleanup of the previous effect before the next effect, so a view's
  life is \<open>Mount\<close>, then any events, with every further \<open>Mount\<close> (a new \<open>chatId\<close>)
  preceded by \<open>Unmount\<close>.
\<close>

datatype rtc_event =
    Mount string
  | Unmount
  | RtcFetched string "response list"
  | RtcTyped jstext
  | RtcSent string string "response list"
  | RtcLive "message_row change"

fun rtc_step :: "rtc_world \<Rightarrow> rtc_event \<Rightarrow> rtc_world" where
  "rtc_step w (Mount chatId) = rtc_subscribe chatId (rtc_cleanup w)"
| "rtc_step w Unmount = rtc_cleanup w"
| "rtc_step w (RtcFetched chatId rs) =
     w\<lparr>rtc_screen := fst (snd (replay (rtc_fetchMessages chatId) rs (rtc_screen w)))\<rparr>"
| "rtc_step w (RtcTyped t) = w\<lparr>rtc_screen := (rtc_screen w)\<lparr>input := t\<rparr>\<rparr>"
| "rtc_step w (RtcSent chatId uid rs) =
     w\<lparr>rtc_screen := fst (snd (replay (rtc_sendMessage chatId uid (rtc_screen w)) rs (rtc_screen w)))\<rparr>"
| "rtc_step w (RtcLive ev) =
     w\<lparr>rtc_screen := (rtc_screen w)\<lparr>rtc_messages :=
          dispatch message_column ev (rtc_supabase w) (rtc_messages (rtc_screen w))\<rparr>\<rparr>"

section \<open>The pair-keyed chat screen, \<open>src/app/chat/[userId].tsx\<close>\<close>

text \<open>
  \<open>user_id\<close> is \<open>user.id\<close> of the signed-in user, \<open>userId\<close> the route parameter naming
  the chat partner. The callback of the subscription (lines 52 to 61):
\<close>

definition dm_on_insert :: "string \<Rightarrow> string \<Rightarrow> direct_message \<Rightarrow> direct_message list \<Rightarrow> direct_message list" where
  "dm_on_insert user_id userId newMsg prev =
     (if (dm_sender_id newMsg = userId \<and> dm_receiver_id newMsg = user_id)
         \<or> (dm_sender_id newMsg = user_id \<and> dm_receiver_id newMsg = userId)
      then prev @ [newMsg] else prev)"

text \<open>
  The effect (lines 31 to 67) returns at once when there is no user or no partner
  (\<open>if (!user || !userId) return\<close>); otherwise it subscribes.
\<close>

definition dm_subscribe :: "string option \<Rightarrow> string \<Rightarrow> direct_message realtime \<Rightarrow> direct_message realtime" where
  "dm_subscribe user userId rt =
     (case user of
        None \<Rightarrow> rt
      | Some user_id \<Rightarrow>
          if userId = [] then rt
          else snd (open_channel (''messages:receiver_id=eq.'' @ user_id) ''messages'' ''INSERT''
                      (Eq ''receiver_id'' user_id) (dm_on_insert user_id userId) rt))"

section \<open>Invariants and sample data\<close>

text \<open>
  The channels registered with the client are exactly the one the view's ref (or the
  effect's closure) holds, and that channel's identity is older than the client's next
  one.
\<close>

definition cs_inv :: "cs_world \<Rightarrow> bool" where
  "cs_inv w \<longleftrightarrow>
     channels (supabase w) = (case channelRef w of None \<Rightarrow> [] | Some c \<Rightarrow> [c])
     \<and> (case channelRef w of None \<Rightarrow> True | Some c \<Rightarrow> cid c < next_cid (supabase w))"

definition rtc_inv :: "rtc_world \<Rightarrow> bool" where
  "rtc_inv w \<longleftrightarrow> channels (rtc_supabase w) = (case subscription w of None \<Rightarrow> [] | Some c \<Rightarrow> [c])"

text \<open>Sample rows, a sample store and a sample stamp for the concrete runs below.\<close>

definition example_m1 :: message_row where
  "example_m1 = \<lparr>row_id = ''m1'', chat_id = ''c1'', created_at = 1, message = [104, 105],
                  patient_id = ''p1'', sender_id = ''d1'', sender_type = ''doctor''\<rparr>"

definition example_m2 :: message_row where
  "example_m2 = \<lparr>row_id = ''m2'', chat_id = ''c1'', created_at = 5, message = [111, 107],
                  patient_id = ''p1'', sender_id = ''d1'', sender_type = ''doctor''\<rparr>"

definition example_m3 :: message_row where
  "example_m3 = \<lparr>row_id = ''m3'', chat_id = ''c1'', created_at = 5, message = [63],
                  patient_id = ''p1'', sender_id = ''p1'', sender_type = ''patient''\<rparr>"

definition example_other :: message_row where
  "example_other = \<lparr>row_id = ''m9'', chat_id = ''c2'', created_at = 3, message = [104, 109],
                     patient_id = ''p1'', sender_id = ''d2'', sender_type = ''doctor''\<rparr>"

definition example_store :: store where
  "example_store =
     \<lparr>chats = [\<lparr>chat_row_id = ''c1'', chat_patient_id = ''p1'', chat_doctor_id = ''d1'',
                  chat_created_at = 1\<rparr>,
                \<lparr>chat_row_id = ''c2'', chat_patient_id = ''p1'', chat_doctor_id = ''d2'',
                  chat_created_at = 2\<rparr>],
      msgs = [example_m1, example_other]\<rparr>"

definition example_stamp :: stamp where
  "example_stamp = \<lparr>uuid = ''m7'', now = 9\<rparr>"

text \<open>The number of \<open>subscribeToMessages\<close> calls in a history.\<close>

fun subscribes :: "cs_event list \<Rightarrow> nat" where
  "subscribes [] = 0"
| "subscribes (Subscribe pid t # evs) = Suc (subscribes evs)"
| "subscribes (e # evs) = subscribes evs"

definition example_dm_in :: direct_message where
  "example_dm_in = \<lparr>dm_id = ''x1'', dm_sender_id = ''u2'', dm_receiver_id = ''u1'',
                     dm_content = [104, 105], dm_created_at = 1\<rparr>"

definition example_dm_out :: direct_message where
  "example_dm_out = \<lparr>dm_id = ''x2'', dm_sender_id = ''u1'', dm_receiver_id = ''u2'',
                      dm_content = [111, 107], dm_created_at = 2\<rparr>"

definition example_doctor :: person where
  "example_doctor = \<lparr>person_id = ''d1'', full_name = ''Doc''\<rparr>"

definition example_chat :: chat_row where
  "example_chat = \<lparr>chat_row_id = ''c1'', chat_patient_id = ''p1'', chat_doctor_id = ''d1'',
                    chat_created_at = 1\<rparr>"

definition empty_store :: store where
  "empty_store = \<lparr>chats = [], msgs = []\<rparr>"

definition stamp_a :: stamp where
  "stamp_a = \<lparr>uuid = ''c7'', now = 8\<rparr>"

definition stamp_b :: stamp where
  "stamp_b = \<lparr>uuid = ''m8'', now = 12\<rparr>"

definition example_screen :: chat_screen where
  "example_screen =
     \<lparr>messages = [example_m1], newMessage = [32, 104, 105, 32], loading = False,
      screen_error = None, sending = False,
      patient = Some \<lparr>person_id = ''p1'', full_name = ''Pat''\<rparr>,
      currentDoctor = Some \<lparr>person_id = ''d1'', full_name = ''Doc''\<rparr>,
      alerts = [], console = []\<rparr>"

definition blank_screen :: chat_screen where
  "blank_screen = example_screen\<lparr>newMessage := [32, 9, 10]\<rparr>"

definition example_rtc :: real_time_chat where
  "example_rtc = \<lparr>rtc_messages = [example_m1], input = [104, 105], rtc_console = []\<rparr>"

definition blank_rtc :: real_time_chat where
  "blank_rtc = example_rtc\<lparr>input := [32, 32]\<rparr>"

text \<open>Answers of the store used in the concrete runs: a row-level-security refusal, the
  answer of \<open>.single()\<close> without a row, and a unique violation.\<close>

definition refused :: response where
  "refused = failure ''42501'' ''new row violates row-level security policy''"

definition no_rows :: response where
  "no_rows = failure ''PGRST116'' ''JSON object requested, multiple (or no) rows returned''"

definition duplicate_key :: response where
  "duplicate_key = failure ''23505'' ''duplicate key value violates unique constraint''"

definition refused_error :: pg_error where
  "refused_error = \<lparr>code = ''42501'',
     err_message = ''new row violates row-level security policy'', instanceof_Error = False\<rparr>"

definition no_rows_error :: pg_error where
  "no_rows_error = \<lparr>code = ''PGRST116'',
     err_message = ''JSON object requested, multiple (or no) rows returned'',
     instanceof_Error = False\<rparr>"

definition duplicate_error :: pg_error where
  "duplicate_error = \<lparr>code = ''23505'',
     err_message = ''duplicate key value violates unique constraint'', instanceof_Error = False\<rparr>"

text \<open>
  A program keeps the observation \<open>g\<close> of the state when none of its updates changes
  \<open>g\<close>, whatever the store answers.
\<close>

primrec keeps :: "('s \<Rightarrow> 'a) \<Rightarrow> 's prog \<Rightarrow> bool" where
  "keeps g Done = True"
| "keeps g (SetState f p) = ((\<forall>s. g (f s) = g s) \<and> keeps g p)"
| "keeps g (Await rq k) = (\<forall>r. keeps g (k r))"

text \<open>The number a string of decimal digits denotes.\<close>

definition decimal_value :: "string \<Rightarrow> nat" where
  "decimal_value ds = foldl (\<lambda>a d. 10 * a + (of_char d - 48)) 0 ds"

text \<open>
  For the teardown: which events are deliveries, how many times the chat component
  subscribed, and three facts about a world. \<open>newer k\<close>: every registered channel, and
  every channel opened from now on, has an identity of at least \<open>k\<close>. \<open>idle\<close>: nothing
  is registered and the view holds no channel. \<open>older\<close>: every registered channel has an
  identity below the client's next one.
\<close>

fun is_Live :: "cs_event \<Rightarrow> bool" where
  "is_Live (Live ev) = True"
| "is_Live e = False"

fun is_RtcLive :: "rtc_event \<Rightarrow> bool" where
  "is_RtcLive (RtcLive ev) = True"
| "is_RtcLive e = False"

fun mounts :: "rtc_event list \<Rightarrow> nat" where
  "mounts [] = 0"
| "mounts (Mount chatId # evs) = Suc (mounts evs)"
| "mounts (e # evs) = mounts evs"

definition cs_newer :: "nat \<Rightarrow> cs_world \<Rightarrow> bool" where
  "cs_newer k w \<longleftrightarrow>
     k \<le> next_cid (supabase w) \<and> list_all (\<lambda>c. k \<le> cid c) (channels (supabase w))"

definition rtc_newer :: "nat \<Rightarrow> rtc_world \<Rightarrow> bool" where
  "rtc_newer k w \<longleftrightarrow>
     k \<le> next_cid (rtc_supabase w) \<and> list_all (\<lambda>c. k \<le> cid c) (channels (rtc_supabase w))"

definition cs_idle :: "cs_world \<Rightarrow> bool" where
  "cs_idle w \<longleftrightarrow> channels (supabase w) = [] \<and> channelRef w = None"

definition rtc_idle :: "rtc_world \<Rightarrow> bool" where
  "rtc_idle w \<longleftrightarrow> channels (rtc_supabase w) = [] \<and> subscription w = None"

definition rtc_older :: "rtc_world \<Rightarrow> bool" where
  "rtc_older w \<longleftrightarrow>
     list_all (\<lambda>c. cid c < next_cid (rtc_supabase w)) (channels (rtc_supabase w))"

section \<open>Lemmas about the subscriptions\<close>

lemma cs_inv_initial: "cs_inv cs_initial"
  by (simp add: cs_inv_def cs_initial_def no_channels_def)

lemma cs_inv_subscribe: "cs_inv w \<Longrightarrow> cs_inv (subscribeToMessages pid t w)"
  by (simp add: cs_inv_def subscribeToMessages_def open_channel_def removeChannel_def Let_def
      split: option.splits)

lemma cs_inv_cleanup: "cs_inv w \<Longrightarrow> cs_inv (cleanup w)"
  by (simp add: cs_inv_def cleanup_def removeChannel_def split: option.splits)

lemma cs_inv_step: "cs_inv w \<Longrightarrow> cs_inv (cs_step w e)"
  by (cases e)
    (simp_all add: cs_inv_subscribe cs_inv_cleanup, simp_all add: cs_inv_def split: option.splits)

lemma cs_inv_run: "cs_inv w \<Longrightarrow> cs_inv (foldl cs_step w evs)"
  by (induction evs arbitrary: w) (simp_all add: cs_inv_step)

lemma cs_inv_reachable: "cs_inv (foldl cs_step cs_initial evs)"
  by (simp add: cs_inv_run cs_inv_initial)

lemma cs_subscribed_channels:
  "cs_inv w \<Longrightarrow> channels (supabase (subscribeToMessages pid t w)) =
     [\<lparr>cid = next_cid (supabase w), topic = ''chat:'' @ pid @ '':'' @ decimal t,
       ch_table = ''messages'', ch_event = ''INSERT'', ch_filter = Eq ''patient_id'' pid,
       callback = handleNewMessage\<rparr>]"
  by (simp add: cs_inv_def subscribeToMessages_def open_channel_def removeChannel_def Let_def
      split: option.splits)

lemma cs_subscribed_ref:
  "channelRef (subscribeToMessages pid t w) =
     Some \<lparr>cid = next_cid (supabase w), topic = ''chat:'' @ pid @ '':'' @ decimal t,
       ch_table = ''messages'', ch_event = ''INSERT'', ch_filter = Eq ''patient_id'' pid,
       callback = handleNewMessage\<rparr>"
  by (simp add: subscribeToMessages_def open_channel_def removeChannel_def Let_def
      split: option.splits)

lemma cs_subscribed_dispatch:
  "cs_inv w \<Longrightarrow>
   dispatch message_column (insert_event m) (supabase (subscribeToMessages pid t w)) prev =
     (if patient_id m = pid then prev @ [m] else prev)"
  by (simp add: cs_subscribed_channels dispatch_def deliver_to_def insert_event_def
      message_column_def handleNewMessage_def)

lemma cs_live_supabase: "supabase (foldl cs_step w (map (\<lambda>x. Live (f x)) xs)) = supabase w"
  by (induction xs arbitrary: w) simp_all

lemma cs_lives_appended:
  "cs_inv w \<Longrightarrow>
   messages (screen (foldl cs_step (subscribeToMessages pid t w) (map (\<lambda>m. Live (insert_event m)) ms))) =
     messages (screen w) @ filter (\<lambda>m. patient_id m = pid) ms"
proof (induction ms rule: rev_induct)
  case Nil
  then show ?case by (simp add: subscribeToMessages_def Let_def)
next
  case (snoc m ms)
  have sup: "supabase (foldl cs_step (subscribeToMessages pid t w) (map (\<lambda>m. Live (insert_event m)) ms)) =
      supabase (subscribeToMessages pid t w)"
    by (rule cs_live_supabase)
  show ?case
    using snoc by (simp add: sup cs_subscribed_dispatch)
qed

lemma next_cid_step:
  "next_cid (supabase (cs_step w e)) = next_cid (supabase w) + subscribes [e]"
  by (cases e)
    (simp_all add: subscribeToMessages_def cleanup_def open_channel_def removeChannel_def Let_def
      split: option.splits)

lemma subscribes_append: "subscribes (xs @ ys) = subscribes xs + subscribes ys"
  by (induction xs rule: subscribes.induct) simp_all

lemma next_cid_run:
  "next_cid (supabase (foldl cs_step w evs)) = next_cid (supabase w) + subscribes evs"
proof (induction evs rule: rev_induct)
  case Nil
  show ?case by simp
next
  case (snoc e evs)
  show ?case
    using snoc next_cid_step [of "foldl cs_step w evs" e] by (simp add: subscribes_append)
qed

lemma next_cid_reachable: "next_cid (supabase (foldl cs_step cs_initial evs)) = subscribes evs"
  by (simp add: next_cid_run cs_initial_def no_channels_def)

lemma rtc_inv_initial: "rtc_inv rtc_initial"
  by (simp add: rtc_inv_def rtc_initial_def no_channels_def)

lemma rtc_inv_cleanup: "rtc_inv w \<Longrightarrow> rtc_inv (rtc_cleanup w)"
  by (simp add: rtc_inv_def rtc_cleanup_def removeChannel_def split: option.splits)

lemma rtc_cleanup_channels: "rtc_inv w \<Longrightarrow> channels (rtc_supabase (rtc_cleanup w)) = []"
  by (simp add: rtc_inv_def rtc_cleanup_def removeChannel_def split: option.splits)

lemma rtc_mount_channels:
  "rtc_inv w \<Longrightarrow> channels (rtc_supabase (rtc_step w (Mount chatId))) =
     [\<lparr>cid = next_cid (rtc_supabase w), topic = ''messages:chat_id=eq.'' @ chatId,
       ch_table = ''messages'', ch_event = ''INSERT'', ch_filter = Eq ''chat_id'' chatId,
       callback = (\<lambda>payload_new prev. prev @ [payload_new])\<rparr>]"
  by (simp add: rtc_inv_def rtc_subscribe_def rtc_cleanup_def open_channel_def removeChannel_def
      Let_def split: option.splits)

lemma rtc_mount_subscription:
  "subscription (rtc_step w (Mount chatId)) =
     Some \<lparr>cid = next_cid (rtc_supabase w), topic = ''messages:chat_id=eq.'' @ chatId,
       ch_table = ''messages'', ch_event = ''INSERT'', ch_filter = Eq ''chat_id'' chatId,
       callback = (\<lambda>payload_new prev. prev @ [payload_new])\<rparr>"
  by (simp add: rtc_subscribe_def rtc_cleanup_def open_channel_def removeChannel_def
      Let_def split: option.splits)

lemma rtc_inv_step: "rtc_inv w \<Longrightarrow> rtc_inv (rtc_step w e)"
proof (cases e)
  case (Mount chatId)
  assume "rtc_inv w"
  then show ?thesis
    unfolding Mount rtc_inv_def rtc_mount_channels [OF \<open>rtc_inv w\<close>] rtc_mount_subscription
    by simp
qed (simp_all add: rtc_inv_cleanup, simp_all add: rtc_inv_def)

lemma rtc_inv_run: "rtc_inv w \<Longrightarrow> rtc_inv (foldl rtc_step w evs)"
  by (induction evs arbitrary: w) (simp_all add: rtc_inv_step)

lemma rtc_inv_reachable: "rtc_inv (foldl rtc_step rtc_initial evs)"
  by (simp add: rtc_inv_run rtc_inv_initial)

lemma rtc_mounted_dispatch:
  "rtc_inv w \<Longrightarrow>
   dispatch message_column (insert_event m) (rtc_supabase (rtc_step w (Mount chatId))) prev =
     (if chat_id m = chatId then prev @ [m] else prev)"
  by (simp add: rtc_mount_channels dispatch_def deliver_to_def insert_event_def message_column_def
      del: rtc_step.simps(1))

lemma rtc_live_supabase:
  "rtc_supabase (foldl rtc_step w (map (\<lambda>x. RtcLive (f x)) xs)) = rtc_supabase w"
  by (induction xs arbitrary: w) simp_all

lemma rtc_lives_appended:
  "rtc_supabase w = rtc_supabase (rtc_step w0 (Mount chatId)) \<Longrightarrow> rtc_inv w0 \<Longrightarrow>
   rtc_messages (rtc_screen (foldl rtc_step w (map (\<lambda>m. RtcLive (insert_event m)) ms))) =
     rtc_messages (rtc_screen w) @ filter (\<lambda>m. chat_id m = chatId) ms"
proof (induction ms rule: rev_induct)
  case Nil
  then show ?case by simp
next
  case (snoc m ms)
  have sup: "rtc_supabase (foldl rtc_step w (map (\<lambda>m. RtcLive (insert_event m)) ms)) =
      rtc_supabase (rtc_step w0 (Mount chatId))"
    using snoc.prems(1) by (simp add: rtc_live_supabase)
  show ?case
    using snoc by (simp add: sup rtc_mounted_dispatch del: rtc_step.simps(1))
qed

lemma fetched_messages:
  "messages (fst (snd (replay (fetchMessages pid) [ok (Some (Rows hist))] v))) = hist"
  by (simp add: fetchMessages_def ok_def rows_or_empty_def)

lemma rtc_fetched_messages:
  "rtc_messages (fst (snd (replay (rtc_fetchMessages c) [ok (Some (Rows hist))] v))) = hist"
  by (simp add: rtc_fetchMessages_def ok_def rows_or_empty_def)

lemma cs_cleanup_channels: "cs_inv w \<Longrightarrow> channels (supabase (cleanup w)) = []"
  by (simp add: cs_inv_def cleanup_def removeChannel_def split: option.splits)

lemma cs_cleanup_screen: "screen (cleanup w) = screen w"
  by (simp add: cleanup_def split: option.splits)

lemma rtc_cleanup_screen: "rtc_screen (rtc_cleanup w) = rtc_screen w"
  by (simp add: rtc_cleanup_def split: option.splits)

lemma cs_at_most_one: "cs_inv w \<Longrightarrow> length (channels (supabase w)) \<le> 1"
  by (simp add: cs_inv_def split: option.splits)

lemma cs_fresh_cid: "cs_inv w \<Longrightarrow> next_cid (supabase w) \<notin> cid ` set (channels (supabase w))"
  by (auto simp add: cs_inv_def split: option.splits)

lemma cs_newer_step: "cs_newer k w \<Longrightarrow> cs_newer k (cs_step w e)"
  by (cases e)
    (auto simp add: cs_newer_def subscribeToMessages_def cleanup_def open_channel_def
      removeChannel_def Let_def list_all_iff split: option.splits)

lemma cs_newer_run: "cs_newer k w \<Longrightarrow> cs_newer k (foldl cs_step w evs)"
  by (induction evs arbitrary: w) (simp_all add: cs_newer_step)

lemma cs_newer_after_cleanup: "cs_inv w \<Longrightarrow> cs_newer (next_cid (supabase w)) (cleanup w)"
  by (simp add: cs_inv_def cs_newer_def cleanup_def removeChannel_def split: option.splits)

lemma cs_idle_after_cleanup: "cs_inv w \<Longrightarrow> cs_idle (cleanup w)"
  by (simp add: cs_inv_def cs_idle_def cleanup_def removeChannel_def split: option.splits)

lemma cs_idle_step: "cs_idle w \<Longrightarrow> subscribes [e] = 0 \<Longrightarrow> cs_idle (cs_step w e)"
  by (cases e) (simp_all add: cs_idle_def cleanup_def)

lemma cs_idle_live: "cs_idle w \<Longrightarrow> cs_step w (Live ev) = w"
  by (simp add: cs_idle_def dispatch_def)

lemma subscribes_Cons: "subscribes (e # evs) = subscribes [e] + subscribes evs"
  using subscribes_append [of "[e]" evs] by simp

lemma cs_idle_run_without_lives:
  "cs_idle w \<Longrightarrow> subscribes evs = 0 \<Longrightarrow>
   foldl cs_step w evs = foldl cs_step w (filter (\<lambda>e. \<not> is_Live e) evs)"
proof (induction evs arbitrary: w)
  case Nil
  show ?case by simp
next
  case (Cons e evs)
  have e0: "subscribes [e] = 0" and evs0: "subscribes evs = 0"
    using Cons.prems(2) subscribes_Cons [of e evs] by simp_all
  show ?case
  proof (cases "is_Live e")
    case True
    then obtain ev where "e = Live ev"
      by (cases e) simp_all
    then have same: "cs_step w e = w"
      using Cons.prems(1) by (simp only: cs_idle_live)
    have "foldl cs_step w (e # evs) = foldl cs_step w evs"
      by (simp only: foldl_Cons same)
    then show ?thesis
      using Cons.IH [OF Cons.prems(1) evs0] True by simp
  next
    case False
    have "cs_idle (cs_step w e)"
      using Cons.prems(1) e0 by (rule cs_idle_step)
    then show ?thesis
      using Cons.IH [OF _ evs0] False by simp
  qed
qed

lemma cs_idle_run: "cs_idle w \<Longrightarrow> subscribes evs = 0 \<Longrightarrow> cs_idle (foldl cs_step w evs)"
proof (induction evs arbitrary: w)
  case Nil
  then show ?case by simp
next
  case (Cons e evs)
  have e0: "subscribes [e] = 0" and evs0: "subscribes evs = 0"
    using Cons.prems(2) subscribes_Cons [of e evs] by simp_all
  have "cs_idle (cs_step w e)"
    using Cons.prems(1) e0 by (rule cs_idle_step)
  then show ?case
    using Cons.IH [OF _ evs0] by simp
qed

lemma cs_closed_stays_unregistered:
  assumes "cs_inv w"
  shows "cid ` set_option (channelRef w) \<inter> cid ` set (channels (supabase (foldl cs_step (cleanup w) evs))) = {}"
proof -
  have "cs_newer (next_cid (supabase w)) (foldl cs_step (cleanup w) evs)"
    using assms by (intro cs_newer_run cs_newer_after_cleanup)
  then have new: "\<forall>c\<in>set (channels (supabase (foldl cs_step (cleanup w) evs))).
      next_cid (supabase w) \<le> cid c"
    by (simp add: cs_newer_def list_all_iff)
  have old: "\<forall>c\<in>set_option (channelRef w). cid c < next_cid (supabase w)"
    using assms by (simp add: cs_inv_def split: option.splits)
  show ?thesis
    using new old by fastforce
qed

lemma rtc_older_initial: "rtc_older rtc_initial"
  by (simp add: rtc_older_def rtc_initial_def no_channels_def)

lemma rtc_older_step: "rtc_older w \<Longrightarrow> rtc_older (rtc_step w e)"
  by (cases e)
    (auto simp add: rtc_older_def rtc_subscribe_def rtc_cleanup_def open_channel_def
      removeChannel_def Let_def list_all_iff less_Suc_eq split: option.splits)

lemma rtc_older_run: "rtc_older w \<Longrightarrow> rtc_older (foldl rtc_step w evs)"
  by (induction evs arbitrary: w) (simp_all add: rtc_older_step)

lemma rtc_older_reachable: "rtc_older (foldl rtc_step rtc_initial evs)"
  by (simp add: rtc_older_run rtc_older_initial)

lemma rtc_newer_step: "rtc_newer k w \<Longrightarrow> rtc_newer k (rtc_step w e)"
  by (cases e)
    (auto simp add: rtc_newer_def rtc_subscribe_def rtc_cleanup_def open_channel_def
      removeChannel_def Let_def list_all_iff split: option.splits)

lemma rtc_newer_run: "rtc_newer k w \<Longrightarrow> rtc_newer k (foldl rtc_step w evs)"
  by (induction evs arbitrary: w) (simp_all add: rtc_newer_step)

lemma rtc_newer_after_cleanup:
  "rtc_inv w \<Longrightarrow> rtc_newer (next_cid (rtc_supabase w)) (rtc_cleanup w)"
  by (simp add: rtc_inv_def rtc_newer_def rtc_cleanup_def removeChannel_def split: option.splits)

lemma rtc_closed_stays_unregistered:
  assumes "rtc_inv w" "rtc_older w"
  shows "cid ` set_option (subscription w)
     \<inter> cid ` set (channels (rtc_supabase (foldl rtc_step (rtc_cleanup w) evs))) = {}"
proof -
  have "rtc_newer (next_cid (rtc_supabase w)) (foldl rtc_step (rtc_cleanup w) evs)"
    using assms(1) by (intro rtc_newer_run rtc_newer_after_cleanup)
  then have new: "\<forall>c\<in>set (channels (rtc_supabase (foldl rtc_step (rtc_cleanup w) evs))).
      next_cid (rtc_supabase w) \<le> cid c"
    by (simp add: rtc_newer_def list_all_iff)
  have old: "\<forall>c\<in>set_option (subscription w). cid c < next_cid (rtc_supabase w)"
    using assms by (auto simp add: rtc_inv_def rtc_older_def split: option.splits)
  show ?thesis
    using new old by fastforce
qed

lemma rtc_idle_after_cleanup: "rtc_inv w \<Longrightarrow> rtc_idle (rtc_cleanup w)"
  by (simp add: rtc_inv_def rtc_idle_def rtc_cleanup_def removeChannel_def split: option.splits)

lemma rtc_idle_step: "rtc_idle w \<Longrightarrow> mounts [e] = 0 \<Longrightarrow> rtc_idle (rtc_step w e)"
  by (cases e) (simp_all add: rtc_idle_def rtc_cleanup_def)

lemma rtc_idle_live: "rtc_idle w \<Longrightarrow> rtc_step w (RtcLive ev) = w"
  by (simp add: rtc_idle_def dispatch_def)

lemma mounts_Cons: "mounts (e # evs) = mounts [e] + mounts evs"
  by (cases e) simp_all

lemma rtc_idle_run: "rtc_idle w \<Longrightarrow> mounts evs = 0 \<Longrightarrow> rtc_idle (foldl rtc_step w evs)"
proof (induction evs arbitrary: w)
  case Nil
  then show ?case by simp
next
  case (Cons e evs)
  have e0: "mounts [e] = 0" and evs0: "mounts evs = 0"
    using Cons.prems(2) mounts_Cons [of e evs] by simp_all
  have "rtc_idle (rtc_step w e)"
    using Cons.prems(1) e0 by (rule rtc_idle_step)
  then show ?case
    using Cons.IH [OF _ evs0] by simp
qed

lemma rtc_idle_run_without_lives:
  "rtc_idle w \<Longrightarrow> mounts evs = 0 \<Longrightarrow>
   foldl rtc_step w evs = foldl rtc_step w (filter (\<lambda>e. \<not> is_RtcLive e) evs)"
proof (induction evs arbitrary: w)
  case Nil
  show ?case by simp
next
  case (Cons e evs)
  have e0: "mounts [e] = 0" and evs0: "mounts evs = 0"
    using Cons.prems(2) mounts_Cons [of e evs] by simp_all
  show ?case
  proof (cases "is_RtcLive e")
    case True
    then obtain ev where "e = RtcLive ev"
      by (cases e) simp_all
    then have same: "rtc_step w e = w"
      using Cons.prems(1) by (simp only: rtc_idle_live)
    have "foldl rtc_step w (e # evs) = foldl rtc_step w evs"
      by (simp only: foldl_Cons same)
    then show ?thesis
      using Cons.IH [OF Cons.prems(1) evs0] True by simp
  next
    case False
    have "rtc_idle (rtc_step w e)"
      using Cons.prems(1) e0 by (rule rtc_idle_step)
    then show ?thesis
      using Cons.IH [OF _ evs0] False by simp
  qed
qed

section \<open>Lemmas about the asynchronous functions and the store\<close>

lemma keeps_replay: "keeps g p \<Longrightarrow> g (fst (snd (replay p rs s))) = g s"
proof (induction p arbitrary: rs s)
  case Done
  show ?case by simp
next
  case (SetState f p)
  then show ?case by simp
next
  case (Await rq k)
  show ?case
  proof (cases rs)
    case Nil
    then show ?thesis by simp
  next
    case (Cons r rs')
    have "keeps g (k r)" using Await.prems by simp
    then have "g (fst (snd (replay (k r) rs' s))) = g s"
      by (rule Await.IH [OF rangeI])
    then show ?thesis
      using Cons by (simp add: split_beta)
  qed
qed

lemma keeps_send_failed: "keeps messages (send_failed e)"
  by (simp add: send_failed_def)

lemma keeps_insert_message: "keeps messages (insert_message pid did body c)"
  by (simp add: insert_message_def keeps_send_failed split: option.splits)

lemma keeps_resolve:
  "(\<And>c. keeps g (found c)) \<Longrightarrow> (\<And>e. keeps g (thrown e)) \<Longrightarrow>
   keeps g (resolveConversation pid did found thrown)"
  by (simp add: resolveConversation_def split: option.splits payload.splits)

lemma keeps_sendMessage: "keeps messages (sendMessage pid v)"
  by (simp add: sendMessage_def keeps_resolve keeps_insert_message keeps_send_failed
      split: option.splits)

lemma keeps_rtc_sendMessage: "keeps rtc_messages (rtc_sendMessage c uid u)"
  by (simp add: rtc_sendMessage_def split: option.splits)

lemma replay_insert_message_failed:
  "error r = Some e \<Longrightarrow>
   replay (insert_message pid did body c) (r # rs) s =
     ([InsertMessage \<lparr>ins_message = trim body, ins_sender_id = did, ins_patient_id = Some pid,
                       ins_chat_id = c, ins_sender_type = Some ''doctor''\<rparr>],
      s\<lparr>console := console s @ [(''Error sending message:'', PostgrestError e)],
        alerts := alerts s @ [(''Error'', ''Failed to send message'')],
        sending := False\<rparr>, True)"
  by (simp add: insert_message_def send_failed_def)

lemma run_insert_message_requests:
  "fst (run (insert_message pid did body c) (t # ts) S s) =
     [InsertMessage \<lparr>ins_message = trim body, ins_sender_id = did, ins_patient_id = Some pid,
                      ins_chat_id = c, ins_sender_type = Some ''doctor''\<rparr>]"
  by (simp add: insert_message_def send_failed_def ok_def failure_def split_beta)

lemma run_insert_message_chats:
  "chats (fst (snd (snd (run (insert_message pid did body c) (t # ts) S s)))) = chats S"
  by (simp add: insert_message_def send_failed_def ok_def failure_def split_beta)

lemma insort_key_before_greatest:
  "f a \<le> f x \<Longrightarrow> insort_key f a (zs @ [x]) = insort_key f a zs @ [x]"
  by (induction zs) simp_all

lemma foldr_insort_before_greatest:
  "\<forall>y\<in>set xs. f y \<le> f x \<Longrightarrow>
   foldr (insort_key f) xs (ys @ [x]) = foldr (insort_key f) xs ys @ [x]"
  by (induction xs) (simp_all add: insort_key_before_greatest)

lemma sort_key_snoc_greatest:
  "\<forall>y\<in>set xs. f y \<le> f x \<Longrightarrow> sort_key f (xs @ [x]) = sort_key f xs @ [x]"
  using foldr_insort_before_greatest [of xs f x "[]"] by (simp add: sort_key_def)

lemma select_messages_sorted: "sorted (map created_at (select_messages flt S))"
  by (simp add: select_messages_def)

lemma select_messages_mset:
  "mset (select_messages flt S) = mset (filter (matches message_column flt) (msgs S))"
  by (simp add: select_messages_def)

lemma select_messages_after_insert:
  assumes "matches message_column flt r"
    and "\<forall>m\<in>set (select_messages flt S). created_at m \<le> created_at r"
  shows "select_messages flt (S\<lparr>msgs := msgs S @ [r]\<rparr>) = select_messages flt S @ [r]"
proof -
  have "\<forall>y\<in>set (filter (matches message_column flt) (msgs S)). created_at y \<le> created_at r"
    using assms(2) by (simp add: select_messages_def)
  then show ?thesis
    using assms(1) by (simp add: select_messages_def sort_key_snoc_greatest)
qed

lemma run_fetchMessages:
  "messages (fst (snd (run (fetchMessages pid) (t # ts) S s))) =
     select_messages (Eq ''patient_id'' pid) S"
  by (simp add: fetchMessages_def ok_def rows_or_empty_def)

lemma run_rtc_fetchMessages:
  "rtc_messages (fst (snd (run (rtc_fetchMessages c) (t # ts) S u))) =
     select_messages (Eq ''chat_id'' c) S"
  by (simp add: rtc_fetchMessages_def ok_def rows_or_empty_def)

lemma run_insert_message_store:
  "uuid t \<notin> set (map row_id (msgs S)) \<Longrightarrow>
   fst (snd (snd (run (insert_message pid did body c) (t # ts) S s))) =
     S\<lparr>msgs := msgs S @ [\<lparr>row_id = uuid t, chat_id = c, created_at = now t,
                            message = trim body, patient_id = pid, sender_id = did,
                            sender_type = ''doctor''\<rparr>]\<rparr>"
  by (simp add: insert_message_def ok_def)

lemma run_send_existing_chat:
  assumes "trim (newMessage v) \<noteq> []" "currentDoctor v = Some doc" "\<not> sending v"
    and "chats_of pid (person_id doc) S = [c]" "chat_row_id c \<noteq> []"
  shows "run (sendMessage pid v) [t1, t2] S s =
      (case run (insert_message pid (person_id doc) (newMessage v) (chat_row_id c)) [t2] S
              (s\<lparr>sending := True\<rparr>) of
         (qs, x) \<Rightarrow> (SelectChatSingle pid (person_id doc) # qs, x))"
  using assms
  by (simp add: sendMessage_def resolveConversation_def truthy_id_def ok_def split_beta)

lemma run_send_new_chat:
  assumes "trim (newMessage v) \<noteq> []" "currentDoctor v = Some doc" "\<not> sending v"
    and "chats_of pid (person_id doc) S = []" "uuid t2 \<notin> set (map chat_row_id (chats S))"
  shows "run (sendMessage pid v) [t1, t2, t3] S s =
      (case run (insert_message pid (person_id doc) (newMessage v) (uuid t2)) [t3]
              (S\<lparr>chats := chats S @ [\<lparr>chat_row_id = uuid t2, chat_patient_id = pid,
                   chat_doctor_id = person_id doc, chat_created_at = now t2\<rparr>]\<rparr>)
              (s\<lparr>sending := True\<rparr>) of
         (qs, x) \<Rightarrow> (SelectChatSingle pid (person_id doc) # InsertChat pid (person_id doc) # qs, x))"
  using assms
  by (simp add: sendMessage_def resolveConversation_def truthy_id_def ok_def failure_def
      split_beta)

lemma fetch_after_insert_message:
  assumes fresh: "uuid t \<notin> set (map row_id (msgs S))"
    and later: "\<forall>m\<in>set (select_messages (Eq ''patient_id'' pid) S). created_at m < now t"
  shows "messages (fst (snd (run (fetchMessages pid) [t']
            (fst (snd (snd (run (insert_message pid did body c) [t] S s)))) s'))) =
         select_messages (Eq ''patient_id'' pid) S @
           [\<lparr>row_id = uuid t, chat_id = c, created_at = now t, message = trim body,
             patient_id = pid, sender_id = did, sender_type = ''doctor''\<rparr>]"
proof -
  let ?r = "\<lparr>row_id = uuid t, chat_id = c, created_at = now t, message = trim body,
             patient_id = pid, sender_id = did, sender_type = ''doctor''\<rparr>"
  have m: "matches message_column (Eq ''patient_id'' pid) ?r"
    by (simp add: message_column_def)
  have le: "\<forall>m\<in>set (select_messages (Eq ''patient_id'' pid) S). created_at m \<le> created_at ?r"
    using later by auto
  show ?thesis
    unfolding run_insert_message_store [OF fresh] run_fetchMessages
    by (rule select_messages_after_insert [OF m le])
qed

lemma example_guard:
  "trim (newMessage example_screen) \<noteq> [] \<and> currentDoctor example_screen = Some example_doctor
   \<and> \<not> sending example_screen"
  by (simp add: example_screen_def example_doctor_def trim_def isWhiteSpace_def)

lemma decimal_value_decimal: "decimal_value (decimal n) = n"
proof (induction n rule: decimal.induct)
  case (1 n)
  show ?case
  proof (cases "n < 10")
    case True
    then show ?thesis
      by (subst decimal.simps) (simp add: decimal_value_def)
  next
    case False
    have unfold: "decimal n = decimal (n div 10) @ [char_of (48 + n mod 10)]"
      using False by (simp only: decimal.simps [of n] if_False)
    have ih: "decimal_value (decimal (n div 10)) = n div 10"
      using 1 False by simp
    have digit: "of_char (char_of (48 + n mod 10)) = (48 + n mod 10 :: nat)"
    proof -
      have "n mod 10 < 10"
        by simp
      then have "48 + n mod 10 < 256"
        by linarith
      then show ?thesis
        by (simp only: of_char_of mod_less)
    qed
    have "decimal_value (decimal (n div 10) @ [char_of (48 + n mod 10)]) =
        10 * decimal_value (decimal (n div 10)) + (of_char (char_of (48 + n mod 10)) - 48)"
      by (simp only: decimal_value_def foldl_append foldl.simps)
    also have "\<dots> = 10 * (n div 10) + n mod 10"
      by (simp only: ih digit add_diff_cancel_left')
    also have "\<dots> = n"
      by simp
    finally show ?thesis
      by (simp only: unfold)
  qed
qed

lemma decimal_inject: "(decimal t = decimal t') = (t = t')"
proof
  assume "decimal t = decimal t'"
  then have "decimal_value (decimal t) = decimal_value (decimal t')"
    by (rule arg_cong)
  then show "t = t'"
    by (simp only: decimal_value_decimal)
next
  assume "t = t'"
  then show "decimal t = decimal t'"
    by (rule arg_cong)
qed

section \<open>The claims\<close>

subsection \<open>C1: no de-duplication of live events\<close>

text \<open>
  C1 says that a live event whose message id is already in the sequence is not appended.
  Both handlers append without looking at the id. In each run below the view fetches
  \<open>m1\<close>, is subscribed, and receives the insert event of \<open>m1\<close>: the sequence holds
  \<open>m1\<close> twice.
\<close>

theorem echo_is_appended_again:
  "map row_id (messages (screen (foldl cs_step cs_initial
      [Fetched ''p1'' [ok (Some (Rows [example_m1]))], Subscribe ''p1'' 7,
       Live (insert_event example_m1)]))) = [''m1'', ''m1'']
   \<and> map row_id (rtc_messages (rtc_screen (foldl rtc_step rtc_initial
      [Mount ''c1'', RtcFetched ''c1'' [ok (Some (Rows [example_m1]))],
       RtcLive (insert_event example_m1)]))) = [''m1'', ''m1'']"
  by (simp add: cs_initial_def rtc_initial_def no_channels_def fetchMessages_def
      rtc_fetchMessages_def ok_def rows_or_empty_def subscribeToMessages_def rtc_subscribe_def
      rtc_cleanup_def open_channel_def dispatch_def deliver_to_def insert_event_def
      message_column_def handleNewMessage_def example_m1_def Let_def)

text \<open>
  C1 as amended: after any history of the view, once the historical fetch has seeded the
  sequence with \<open>hist\<close> and the subscription is open, the sequence is \<open>hist\<close> followed by
  every live insert event that passes the subscription filter, in arrival order, whether
  or not its id is already present. This holds for the patient chat screen (filter
  \<open>patient_id\<close>) and for the chat component (filter \<open>chat_id\<close>).
\<close>

theorem live_events_appended_without_dedup:
  "messages (screen (foldl cs_step (foldl cs_step cs_initial evs)
       ([Fetched pid [ok (Some (Rows hist))], Subscribe pid t]
          @ map (\<lambda>m. Live (insert_event m)) ms))) =
     hist @ filter (\<lambda>m. patient_id m = pid) ms
   \<and> rtc_messages (rtc_screen (foldl rtc_step (foldl rtc_step rtc_initial revs)
       ([Mount chatId, RtcFetched chatId [ok (Some (Rows hist))]]
          @ map (\<lambda>m. RtcLive (insert_event m)) ms))) =
     hist @ filter (\<lambda>m. chat_id m = chatId) ms"
proof
  let ?w0 = "foldl cs_step cs_initial evs"
  let ?w1 = "cs_step ?w0 (Fetched pid [ok (Some (Rows hist))])"
  have inv: "cs_inv ?w1"
    by (rule cs_inv_step) (rule cs_inv_reachable)
  have seed: "messages (screen ?w1) = hist"
    by (simp add: fetched_messages)
  have "messages (screen (foldl cs_step (subscribeToMessages pid t ?w1)
          (map (\<lambda>m. Live (insert_event m)) ms))) =
        messages (screen ?w1) @ filter (\<lambda>m. patient_id m = pid) ms"
    by (rule cs_lives_appended [OF inv])
  then show "messages (screen (foldl cs_step ?w0
       ([Fetched pid [ok (Some (Rows hist))], Subscribe pid t]
          @ map (\<lambda>m. Live (insert_event m)) ms))) =
     hist @ filter (\<lambda>m. patient_id m = pid) ms"
    using seed by simp
next
  let ?w0 = "foldl rtc_step rtc_initial revs"
  let ?w1 = "rtc_step ?w0 (Mount chatId)"
  let ?w2 = "rtc_step ?w1 (RtcFetched chatId [ok (Some (Rows hist))])"
  have inv: "rtc_inv ?w0"
    by (rule rtc_inv_reachable)
  have sup: "rtc_supabase ?w2 = rtc_supabase ?w1"
    by simp
  have seed: "rtc_messages (rtc_screen ?w2) = hist"
    by (simp add: rtc_fetched_messages del: rtc_step.simps(1))
  have "rtc_messages (rtc_screen (foldl rtc_step ?w2 (map (\<lambda>m. RtcLive (insert_event m)) ms))) =
        rtc_messages (rtc_screen ?w2) @ filter (\<lambda>m. chat_id m = chatId) ms"
    by (rule rtc_lives_appended [OF sup inv])
  then show "rtc_messages (rtc_screen (foldl rtc_step ?w0
       ([Mount chatId, RtcFetched chatId [ok (Some (Rows hist))]]
          @ map (\<lambda>m. RtcLive (insert_event m)) ms))) =
     hist @ filter (\<lambda>m. chat_id m = chatId) ms"
    using seed by (simp del: rtc_step.simps(1))
qed

theorem live_events_appended_without_dedup_witness:
  "messages (screen (foldl cs_step (foldl cs_step cs_initial [Typed [104]])
       ([Fetched ''p1'' [ok (Some (Rows [example_m1]))], Subscribe ''p1'' 7]
          @ map (\<lambda>m. Live (insert_event m)) [example_m2, example_m1]))) =
     [example_m1, example_m2, example_m1]
   \<and> rtc_messages (rtc_screen (foldl rtc_step (foldl rtc_step rtc_initial [RtcTyped [104]])
       ([Mount ''c1'', RtcFetched ''c1'' [ok (Some (Rows [example_m1]))]]
          @ map (\<lambda>m. RtcLive (insert_event m)) [example_m2, example_other, example_m1]))) =
     [example_m1, example_m2, example_m1]"
proof -
  have p: "filter (\<lambda>m. patient_id m = ''p1'') [example_m2, example_m1] = [example_m2, example_m1]"
    by (simp add: example_m1_def example_m2_def)
  have c: "filter (\<lambda>m. chat_id m = ''c1'') [example_m2, example_other, example_m1] =
      [example_m2, example_m1]"
    by (simp add: example_m1_def example_m2_def example_other_def)
  show ?thesis
    using live_events_appended_without_dedup
        [of "[Typed [104]]" "''p1''" "[example_m1]" 7 "[example_m2, example_m1]"
            "[RtcTyped [104]]" "''c1''"]
      live_events_appended_without_dedup
        [of "[Typed [104]]" "''p1''" "[example_m1]" 7 "[example_m2, example_other, example_m1]"
            "[RtcTyped [104]]" "''c1''"]
    by (simp only: p c append.simps)
qed

subsection \<open>C2: find-or-create of the chat record\<close>

text \<open>
  C2 says that when the creating insert fails with a unique violation the resolver queries
  again and returns the id that now exists. In \<open>sendMessage\<close> the error of the insert
  is thrown: with the answers "no row" and "duplicate key" the send issues the lookup and
  the insert, nothing else (the two further answers stay unread), logs the error and
  shows the alert.
\<close>

theorem failed_chat_insert_is_thrown:
  "replay (sendMessage ''p1'' example_screen)
      [no_rows, duplicate_key, ok (Some (ChatId ''c1'')), ok None] example_screen =
     ([SelectChatSingle ''p1'' ''d1'', InsertChat ''p1'' ''d1''],
      example_screen\<lparr>console := [(''Error sending message:'',
           PostgrestError \<lparr>code = ''23505'',
              err_message = ''duplicate key value violates unique constraint'',
              instanceof_Error = False\<rparr>)],
         alerts := [(''Error'', ''Failed to send message'')]\<rparr>,
      True)"
  by (simp add: sendMessage_def resolveConversation_def truthy_id_def send_failed_def
      no_rows_def duplicate_key_def failure_def example_screen_def trim_def isWhiteSpace_def)

text \<open>
  C2 as amended, for a send that passes the guard. When the store holds exactly one chat
  for the pair, the send uses its id and inserts no chat. When it holds none, the send
  issues exactly one chat insert, uses the new id, and the store then holds exactly one
  chat for the pair, so that the next send finds it. When the chat insert fails, for
  whatever reason, the error is logged, the alert is shown, and neither a second lookup
  nor the message insert is issued.
\<close>

theorem find_or_create_chat:
  "(trim (newMessage v) \<noteq> [] \<and> currentDoctor v = Some doc \<and> \<not> sending v
      \<and> chats_of pid (person_id doc) S = [c] \<and> chat_row_id c \<noteq> [] \<longrightarrow>
    fst (run (sendMessage pid v) [t1, t2] S s) =
      [SelectChatSingle pid (person_id doc),
       InsertMessage \<lparr>ins_message = trim (newMessage v), ins_sender_id = person_id doc,
                       ins_patient_id = Some pid, ins_chat_id = chat_row_id c,
                       ins_sender_type = Some ''doctor''\<rparr>]
    \<and> chats (fst (snd (snd (run (sendMessage pid v) [t1, t2] S s)))) = chats S)
   \<and> (trim (newMessage v) \<noteq> [] \<and> currentDoctor v = Some doc \<and> \<not> sending v
      \<and> chats_of pid (person_id doc) S = [] \<and> uuid t2 \<notin> set (map chat_row_id (chats S)) \<longrightarrow>
    fst (run (sendMessage pid v) [t1, t2, t3] S s) =
      [SelectChatSingle pid (person_id doc), InsertChat pid (person_id doc),
       InsertMessage \<lparr>ins_message = trim (newMessage v), ins_sender_id = person_id doc,
                       ins_patient_id = Some pid, ins_chat_id = uuid t2,
                       ins_sender_type = Some ''doctor''\<rparr>]
    \<and> chats (fst (snd (snd (run (sendMessage pid v) [t1, t2, t3] S s)))) =
        chats S @ [\<lparr>chat_row_id = uuid t2, chat_patient_id = pid,
                     chat_doctor_id = person_id doc, chat_created_at = now t2\<rparr>]
    \<and> chats_of pid (person_id doc) (fst (snd (snd (run (sendMessage pid v) [t1, t2, t3] S s)))) =
        [\<lparr>chat_row_id = uuid t2, chat_patient_id = pid,
          chat_doctor_id = person_id doc, chat_created_at = now t2\<rparr>])
   \<and> (trim (newMessage v) \<noteq> [] \<and> currentDoctor v = Some doc \<and> \<not> sending v
      \<and> data r1 = None \<and> error r1 = Some e1 \<and> code e1 = ''PGRST116'' \<and> error r2 = Some e \<longrightarrow>
    replay (sendMessage pid v) (r1 # r2 # rs) s =
      ([SelectChatSingle pid (person_id doc), InsertChat pid (person_id doc)],
       s\<lparr>console := console s @ [(''Error sending message:'', PostgrestError e)],
         alerts := alerts s @ [(''Error'', ''Failed to send message'')],
         sending := False\<rparr>, True))"
proof (intro conjI impI)
  assume h: "trim (newMessage v) \<noteq> [] \<and> currentDoctor v = Some doc \<and> \<not> sending v
      \<and> chats_of pid (person_id doc) S = [c] \<and> chat_row_id c \<noteq> []"
  have step: "run (sendMessage pid v) [t1, t2] S s =
      (case run (insert_message pid (person_id doc) (newMessage v) (chat_row_id c)) [t2] S
              (s\<lparr>sending := True\<rparr>) of
         (qs, x) \<Rightarrow> (SelectChatSingle pid (person_id doc) # qs, x))"
    using h by (simp add: sendMessage_def resolveConversation_def truthy_id_def ok_def split_beta)
  show "fst (run (sendMessage pid v) [t1, t2] S s) =
      [SelectChatSingle pid (person_id doc),
       InsertMessage \<lparr>ins_message = trim (newMessage v), ins_sender_id = person_id doc,
                       ins_patient_id = Some pid, ins_chat_id = chat_row_id c,
                       ins_sender_type = Some ''doctor''\<rparr>]"
    using run_insert_message_requests [of pid "person_id doc" "newMessage v" "chat_row_id c" t2 "[]" S
        "s\<lparr>sending := True\<rparr>"]
    by (simp add: step split_beta)
  show "chats (fst (snd (snd (run (sendMessage pid v) [t1, t2] S s)))) = chats S"
    using run_insert_message_chats [of pid "person_id doc" "newMessage v" "chat_row_id c" t2 "[]" S
        "s\<lparr>sending := True\<rparr>"]
    by (simp add: step split_beta)
next
  assume h: "trim (newMessage v) \<noteq> [] \<and> currentDoctor v = Some doc \<and> \<not> sending v
      \<and> chats_of pid (person_id doc) S = [] \<and> uuid t2 \<notin> set (map chat_row_id (chats S))"
  let ?new = "\<lparr>chat_row_id = uuid t2, chat_patient_id = pid,
                chat_doctor_id = person_id doc, chat_created_at = now t2\<rparr>"
  let ?S1 = "S\<lparr>chats := chats S @ [?new]\<rparr>"
  have step: "run (sendMessage pid v) [t1, t2, t3] S s =
      (case run (insert_message pid (person_id doc) (newMessage v) (uuid t2)) [t3] ?S1
              (s\<lparr>sending := True\<rparr>) of
         (qs, x) \<Rightarrow> (SelectChatSingle pid (person_id doc) # InsertChat pid (person_id doc) # qs, x))"
    using h
    by (simp add: sendMessage_def resolveConversation_def truthy_id_def ok_def failure_def
        split_beta)
  show "fst (run (sendMessage pid v) [t1, t2, t3] S s) =
      [SelectChatSingle pid (person_id doc), InsertChat pid (person_id doc),
       InsertMessage \<lparr>ins_message = trim (newMessage v), ins_sender_id = person_id doc,
                       ins_patient_id = Some pid, ins_chat_id = uuid t2,
                       ins_sender_type = Some ''doctor''\<rparr>]"
    using run_insert_message_requests [of pid "person_id doc" "newMessage v" "uuid t2" t3 "[]" ?S1
        "s\<lparr>sending := True\<rparr>"]
    by (simp add: step split_beta)
  have ch: "chats (fst (snd (snd (run (sendMessage pid v) [t1, t2, t3] S s)))) = chats ?S1"
    using run_insert_message_chats [of pid "person_id doc" "newMessage v" "uuid t2" t3 "[]" ?S1
        "s\<lparr>sending := True\<rparr>"]
    by (simp add: step split_beta)
  then show "chats (fst (snd (snd (run (sendMessage pid v) [t1, t2, t3] S s)))) = chats S @ [?new]"
    by simp
  show "chats_of pid (person_id doc) (fst (snd (snd (run (sendMessage pid v) [t1, t2, t3] S s)))) =
      [?new]"
    using h ch by (simp add: chats_of_def)
next
  assume "trim (newMessage v) \<noteq> [] \<and> currentDoctor v = Some doc \<and> \<not> sending v
      \<and> data r1 = None \<and> error r1 = Some e1 \<and> code e1 = ''PGRST116'' \<and> error r2 = Some e"
  then show "replay (sendMessage pid v) (r1 # r2 # rs) s =
      ([SelectChatSingle pid (person_id doc), InsertChat pid (person_id doc)],
       s\<lparr>console := console s @ [(''Error sending message:'', PostgrestError e)],
         alerts := alerts s @ [(''Error'', ''Failed to send message'')],
         sending := False\<rparr>, True)"
    by (simp add: sendMessage_def resolveConversation_def truthy_id_def failure_def
        send_failed_def)
qed

theorem find_or_create_chat_witness:
  "(chats_of ''p1'' (person_id example_doctor) example_store = [example_chat]
      \<and> chat_row_id example_chat \<noteq> [])
   \<and> fst (run (sendMessage ''p1'' example_screen) [stamp_a, example_stamp] example_store
          example_screen) =
      [SelectChatSingle ''p1'' (person_id example_doctor),
       InsertMessage \<lparr>ins_message = trim (newMessage example_screen),
                       ins_sender_id = person_id example_doctor,
                       ins_patient_id = Some ''p1'', ins_chat_id = chat_row_id example_chat,
                       ins_sender_type = Some ''doctor''\<rparr>]
   \<and> chats (fst (snd (snd (run (sendMessage ''p1'' example_screen) [stamp_a, example_stamp]
          example_store example_screen)))) = chats example_store
   \<and> (chats_of ''p1'' (person_id example_doctor) empty_store = []
      \<and> uuid stamp_a \<notin> set (map chat_row_id (chats empty_store)))
   \<and> fst (run (sendMessage ''p1'' example_screen) [example_stamp, stamp_a, example_stamp]
          empty_store example_screen) =
      [SelectChatSingle ''p1'' (person_id example_doctor),
       InsertChat ''p1'' (person_id example_doctor),
       InsertMessage \<lparr>ins_message = trim (newMessage example_screen),
                       ins_sender_id = person_id example_doctor,
                       ins_patient_id = Some ''p1'', ins_chat_id = uuid stamp_a,
                       ins_sender_type = Some ''doctor''\<rparr>]
   \<and> chats_of ''p1'' (person_id example_doctor)
        (fst (snd (snd (run (sendMessage ''p1'' example_screen)
           [example_stamp, stamp_a, example_stamp] empty_store example_screen)))) =
        [\<lparr>chat_row_id = uuid stamp_a, chat_patient_id = ''p1'',
          chat_doctor_id = person_id example_doctor, chat_created_at = now stamp_a\<rparr>]
   \<and> (data no_rows = None \<and> error no_rows = Some no_rows_error \<and> code no_rows_error = ''PGRST116''
      \<and> error duplicate_key = Some duplicate_error)
   \<and> replay (sendMessage ''p1'' example_screen) [no_rows, duplicate_key] example_screen =
      ([SelectChatSingle ''p1'' (person_id example_doctor),
        InsertChat ''p1'' (person_id example_doctor)],
       example_screen\<lparr>console := console example_screen @
            [(''Error sending message:'', PostgrestError duplicate_error)],
         alerts := alerts example_screen @ [(''Error'', ''Failed to send message'')],
         sending := False\<rparr>, True)"
proof -
  note g = example_guard
  have a: "chats_of ''p1'' (person_id example_doctor) example_store = [example_chat]
      \<and> chat_row_id example_chat \<noteq> []"
    by (simp add: chats_of_def example_store_def example_doctor_def example_chat_def)
  have b: "chats_of ''p1'' (person_id example_doctor) empty_store = []
      \<and> uuid stamp_a \<notin> set (map chat_row_id (chats empty_store))"
    by (simp add: chats_of_def empty_store_def)
  have c: "data no_rows = None \<and> error no_rows = Some no_rows_error \<and> code no_rows_error = ''PGRST116''
      \<and> error duplicate_key = Some duplicate_error"
    by (simp add: no_rows_def duplicate_key_def failure_def duplicate_error_def no_rows_error_def)
  have A: "fst (run (sendMessage ''p1'' example_screen) [stamp_a, example_stamp] example_store
          example_screen) =
      [SelectChatSingle ''p1'' (person_id example_doctor),
       InsertMessage \<lparr>ins_message = trim (newMessage example_screen),
                       ins_sender_id = person_id example_doctor,
                       ins_patient_id = Some ''p1'', ins_chat_id = chat_row_id example_chat,
                       ins_sender_type = Some ''doctor''\<rparr>]
   \<and> chats (fst (snd (snd (run (sendMessage ''p1'' example_screen) [stamp_a, example_stamp]
          example_store example_screen)))) = chats example_store"
    using g a
      find_or_create_chat [where v = example_screen and doc = example_doctor and pid = "''p1''"
        and S = example_store and c = example_chat and ?t1.0 = stamp_a and ?t2.0 = example_stamp
        and s = example_screen]
    by blast
  have B: "fst (run (sendMessage ''p1'' example_screen) [example_stamp, stamp_a, example_stamp]
          empty_store example_screen) =
      [SelectChatSingle ''p1'' (person_id example_doctor),
       InsertChat ''p1'' (person_id example_doctor),
       InsertMessage \<lparr>ins_message = trim (newMessage example_screen),
                       ins_sender_id = person_id example_doctor,
                       ins_patient_id = Some ''p1'', ins_chat_id = uuid stamp_a,
                       ins_sender_type = Some ''doctor''\<rparr>]
   \<and> chats_of ''p1'' (person_id example_doctor)
        (fst (snd (snd (run (sendMessage ''p1'' example_screen)
           [example_stamp, stamp_a, example_stamp] empty_store example_screen)))) =
        [\<lparr>chat_row_id = uuid stamp_a, chat_patient_id = ''p1'',
          chat_doctor_id = person_id example_doctor, chat_created_at = now stamp_a\<rparr>]"
    using g b
      find_or_create_chat [where v = example_screen and doc = example_doctor and pid = "''p1''"
        and S = empty_store and ?t1.0 = example_stamp and ?t2.0 = stamp_a
        and ?t3.0 = example_stamp and s = example_screen]
    by blast
  have C: "replay (sendMessage ''p1'' example_screen) [no_rows, duplicate_key] example_screen =
      ([SelectChatSingle ''p1'' (person_id example_doctor),
        InsertChat ''p1'' (person_id example_doctor)],
       example_screen\<lparr>console := console example_screen @
            [(''Error sending message:'', PostgrestError duplicate_error)],
         alerts := alerts example_screen @ [(''Error'', ''Failed to send message'')],
         sending := False\<rparr>, True)"
    using g c
      find_or_create_chat [where ?r1.0 = no_rows and ?r2.0 = duplicate_key and e = duplicate_error
        and v = example_screen and doc = example_doctor and s = example_screen
        and ?e1.0 = no_rows_error
        and rs = "[]" and pid = "''p1''"]
    by blast
  show ?thesis
    using a b c A B C by blast
qed

subsection \<open>C3: order of live events\<close>

text \<open>
  C3 says that two live events with identical creation timestamps end up ordered by
  message id whichever arrives first. The rows \<open>m2\<close> and \<open>m3\<close> carry the same
  \<open>created_at\<close>; the sequence after delivering \<open>m3\<close> then \<open>m2\<close> is \<open>[m3, m2]\<close>, after
  delivering \<open>m2\<close> then \<open>m3\<close> it is \<open>[m2, m3]\<close>.
\<close>

theorem same_instant_arrival_orders_differ:
  "map row_id (messages (screen (foldl cs_step cs_initial
      [Subscribe ''p1'' 7, Live (insert_event example_m3), Live (insert_event example_m2)])))
     = [''m3'', ''m2'']
   \<and> map row_id (messages (screen (foldl cs_step cs_initial
      [Subscribe ''p1'' 7, Live (insert_event example_m2), Live (insert_event example_m3)])))
     = [''m2'', ''m3'']
   \<and> created_at example_m2 = created_at example_m3"
  by (simp add: cs_initial_def no_channels_def
      subscribeToMessages_def open_channel_def dispatch_def deliver_to_def insert_event_def
      message_column_def handleNewMessage_def example_m2_def example_m3_def Let_def)

text \<open>
  C3 as amended: two live events that pass the subscription filter are placed at the tail
  of the sequence in the order in which they arrive, whatever their timestamps and ids
  (patient chat screen and chat component).
\<close>

theorem live_events_kept_in_arrival_order:
  "(patient_id a = pid \<and> patient_id b = pid \<longrightarrow>
     messages (screen (foldl cs_step (cs_step (foldl cs_step cs_initial evs) (Subscribe pid t))
        [Live (insert_event a), Live (insert_event b)])) =
     messages (screen (foldl cs_step cs_initial evs)) @ [a, b])
   \<and> (chat_id a = chatId \<and> chat_id b = chatId \<longrightarrow>
     rtc_messages (rtc_screen (foldl rtc_step (rtc_step (foldl rtc_step rtc_initial revs) (Mount chatId))
        [RtcLive (insert_event a), RtcLive (insert_event b)])) =
     rtc_messages (rtc_screen (foldl rtc_step rtc_initial revs)) @ [a, b])"
proof -
  have "rtc_messages (rtc_screen (rtc_step (foldl rtc_step rtc_initial revs) (Mount chatId))) =
      rtc_messages (rtc_screen (foldl rtc_step rtc_initial revs))"
    by (simp add: rtc_subscribe_def rtc_cleanup_screen Let_def)
  then show ?thesis
    using cs_lives_appended [OF cs_inv_reachable, of pid t evs "[a, b]"]
      rtc_lives_appended [OF refl rtc_inv_reachable, of revs chatId "[a, b]"]
    by (simp del: rtc_step.simps(1))
qed

theorem live_events_kept_in_arrival_order_witness:
  "patient_id example_m3 = ''p1'' \<and> patient_id example_m2 = ''p1''
   \<and> messages (screen (foldl cs_step (cs_step (foldl cs_step cs_initial []) (Subscribe ''p1'' 7))
        [Live (insert_event example_m3), Live (insert_event example_m2)])) =
     messages (screen (foldl cs_step cs_initial [])) @ [example_m3, example_m2]
   \<and> chat_id example_m3 = ''c1'' \<and> chat_id example_m2 = ''c1''
   \<and> rtc_messages (rtc_screen (foldl rtc_step (rtc_step (foldl rtc_step rtc_initial []) (Mount ''c1''))
        [RtcLive (insert_event example_m3), RtcLive (insert_event example_m2)])) =
     rtc_messages (rtc_screen (foldl rtc_step rtc_initial [])) @ [example_m3, example_m2]"
proof -
  have p: "patient_id example_m3 = ''p1'' \<and> patient_id example_m2 = ''p1''"
    by (simp add: example_m3_def example_m2_def)
  have c: "chat_id example_m3 = ''c1'' \<and> chat_id example_m2 = ''c1''"
    by (simp add: example_m3_def example_m2_def)
  show ?thesis
    using p c
      live_events_kept_in_arrival_order
        [of example_m3 "''p1''" example_m2 "[]" 7 "''c1''" "[]"]
    by blast
qed

subsection \<open>C4: nothing is delivered through a closed channel\<close>

text \<open>
  C4. The teardown is the function the effect returns. After any history of the view:
  the teardown leaves no channel registered; the channel instance the view held at the
  teardown is never registered again, whatever happens afterwards (fetches, sends, typing,
  further teardowns, further subscriptions), so the service never runs its callback
  again; and as long as the view does not subscribe again, nothing is registered and the
  deliveries that arrive have no effect at all: the view ends in the state it would be in
  had they not arrived. This holds for the patient chat screen and for the chat
  component.
\<close>

theorem closed_channel_never_delivers:
  "channels (supabase (cleanup (foldl cs_step cs_initial evs))) = []
   \<and> cid ` set_option (channelRef (foldl cs_step cs_initial evs))
       \<inter> cid ` set (channels (supabase
             (foldl cs_step (cleanup (foldl cs_step cs_initial evs)) evs'))) = {}
   \<and> (subscribes evs' = 0 \<longrightarrow>
        channels (supabase (foldl cs_step (cleanup (foldl cs_step cs_initial evs)) evs')) = []
        \<and> foldl cs_step (cleanup (foldl cs_step cs_initial evs)) evs' =
          foldl cs_step (cleanup (foldl cs_step cs_initial evs))
            (filter (\<lambda>e. \<not> is_Live e) evs'))
   \<and> channels (rtc_supabase (rtc_cleanup (foldl rtc_step rtc_initial revs))) = []
   \<and> cid ` set_option (subscription (foldl rtc_step rtc_initial revs))
       \<inter> cid ` set (channels (rtc_supabase
             (foldl rtc_step (rtc_cleanup (foldl rtc_step rtc_initial revs)) revs'))) = {}
   \<and> (mounts revs' = 0 \<longrightarrow>
        channels (rtc_supabase
           (foldl rtc_step (rtc_cleanup (foldl rtc_step rtc_initial revs)) revs')) = []
        \<and> foldl rtc_step (rtc_cleanup (foldl rtc_step rtc_initial revs)) revs' =
          foldl rtc_step (rtc_cleanup (foldl rtc_step rtc_initial revs))
            (filter (\<lambda>e. \<not> is_RtcLive e) revs'))"
proof (intro conjI impI)
  show "channels (supabase (cleanup (foldl cs_step cs_initial evs))) = []"
    by (rule cs_cleanup_channels) (rule cs_inv_reachable)
  show "cid ` set_option (channelRef (foldl cs_step cs_initial evs))
       \<inter> cid ` set (channels (supabase
             (foldl cs_step (cleanup (foldl cs_step cs_initial evs)) evs'))) = {}"
    by (rule cs_closed_stays_unregistered) (rule cs_inv_reachable)
  show "channels (rtc_supabase (rtc_cleanup (foldl rtc_step rtc_initial revs))) = []"
    by (rule rtc_cleanup_channels) (rule rtc_inv_reachable)
  show "cid ` set_option (subscription (foldl rtc_step rtc_initial revs))
       \<inter> cid ` set (channels (rtc_supabase
             (foldl rtc_step (rtc_cleanup (foldl rtc_step rtc_initial revs)) revs'))) = {}"
    by (rule rtc_closed_stays_unregistered) (rule rtc_inv_reachable, rule rtc_older_reachable)
next
  assume s0: "subscribes evs' = 0"
  have idle: "cs_idle (cleanup (foldl cs_step cs_initial evs))"
    by (rule cs_idle_after_cleanup) (rule cs_inv_reachable)
  show "channels (supabase (foldl cs_step (cleanup (foldl cs_step cs_initial evs)) evs')) = []"
    using cs_idle_run [OF idle s0] by (simp add: cs_idle_def)
  show "foldl cs_step (cleanup (foldl cs_step cs_initial evs)) evs' =
          foldl cs_step (cleanup (foldl cs_step cs_initial evs))
            (filter (\<lambda>e. \<not> is_Live e) evs')"
    by (rule cs_idle_run_without_lives [OF idle s0])
next
  assume m0: "mounts revs' = 0"
  have idle: "rtc_idle (rtc_cleanup (foldl rtc_step rtc_initial revs))"
    by (rule rtc_idle_after_cleanup) (rule rtc_inv_reachable)
  show "channels (rtc_supabase
           (foldl rtc_step (rtc_cleanup (foldl rtc_step rtc_initial revs)) revs')) = []"
    using rtc_idle_run [OF idle m0] by (simp add: rtc_idle_def)
  show "foldl rtc_step (rtc_cleanup (foldl rtc_step rtc_initial revs)) revs' =
          foldl rtc_step (rtc_cleanup (foldl rtc_step rtc_initial revs))
            (filter (\<lambda>e. \<not> is_RtcLive e) revs')"
    by (rule rtc_idle_run_without_lives [OF idle m0])
qed

theorem closed_channel_never_delivers_witness:
  "map cid (channels (supabase (foldl cs_step cs_initial
       [Subscribe ''p1'' 7, Live (insert_event example_m1)]))) = [0]
   \<and> messages (screen (foldl cs_step cs_initial
       [Subscribe ''p1'' 7, Live (insert_event example_m1)])) = [example_m1]
   \<and> subscribes [Live (insert_event example_m2), Typed [104], Live (insert_event example_m3)] = 0
   \<and> channels (supabase (foldl cs_step
       (cleanup (foldl cs_step cs_initial [Subscribe ''p1'' 7, Live (insert_event example_m1)]))
       [Live (insert_event example_m2), Typed [104], Live (insert_event example_m3)])) = []
   \<and> messages (screen (foldl cs_step
       (cleanup (foldl cs_step cs_initial [Subscribe ''p1'' 7, Live (insert_event example_m1)]))
       [Live (insert_event example_m2), Typed [104], Live (insert_event example_m3)])) =
       [example_m1]
   \<and> rtc_messages (rtc_screen (foldl rtc_step rtc_initial
       [Mount ''c1'', RtcLive (insert_event example_m1)])) = [example_m1]
   \<and> mounts [RtcLive (insert_event example_m2), RtcTyped [104], RtcLive (insert_event example_m3)] = 0
   \<and> rtc_messages (rtc_screen (foldl rtc_step
       (rtc_cleanup (foldl rtc_step rtc_initial [Mount ''c1'', RtcLive (insert_event example_m1)]))
       [RtcLive (insert_event example_m2), RtcTyped [104], RtcLive (insert_event example_m3)])) =
       [example_m1]"
proof -
  let ?evs = "[Subscribe ''p1'' 7, Live (insert_event example_m1)]"
  let ?evs' = "[Live (insert_event example_m2), Typed [104], Live (insert_event example_m3)]"
  let ?revs = "[Mount ''c1'', RtcLive (insert_event example_m1)]"
  let ?revs' = "[RtcLive (insert_event example_m2), RtcTyped [104], RtcLive (insert_event example_m3)]"
  have c: "map cid (channels (supabase (foldl cs_step cs_initial ?evs))) = [0]"
    by (simp add: cs_initial_def no_channels_def subscribeToMessages_def open_channel_def Let_def)
  have a: "messages (screen (foldl cs_step cs_initial ?evs)) = [example_m1]"
    by (simp add: cs_initial_def no_channels_def subscribeToMessages_def open_channel_def
        dispatch_def deliver_to_def insert_event_def message_column_def handleNewMessage_def
        example_m1_def Let_def)
  have b: "rtc_messages (rtc_screen (foldl rtc_step rtc_initial ?revs)) = [example_m1]"
    by (simp add: rtc_initial_def no_channels_def rtc_subscribe_def rtc_cleanup_def
        open_channel_def dispatch_def deliver_to_def insert_event_def message_column_def
        example_m1_def Let_def)
  have s0: "subscribes ?evs' = 0"
    by simp
  have m0: "mounts ?revs' = 0"
    by simp
  have f: "filter (\<lambda>e. \<not> is_Live e) ?evs' = [Typed [104]]"
    by simp
  have g: "filter (\<lambda>e. \<not> is_RtcLive e) ?revs' = [RtcTyped [104]]"
    by simp
  note t = closed_channel_never_delivers [of ?evs ?evs' ?revs ?revs']
  have A: "channels (supabase (foldl cs_step (cleanup (foldl cs_step cs_initial ?evs)) ?evs')) = []"
    using t s0 by blast
  have "foldl cs_step (cleanup (foldl cs_step cs_initial ?evs)) ?evs' =
      foldl cs_step (cleanup (foldl cs_step cs_initial ?evs)) (filter (\<lambda>e. \<not> is_Live e) ?evs')"
    using t s0 by blast
  then have B: "messages (screen (foldl cs_step (cleanup (foldl cs_step cs_initial ?evs)) ?evs')) =
      [example_m1]"
    using a by (simp only: f) (simp add: cs_cleanup_screen)
  have "foldl rtc_step (rtc_cleanup (foldl rtc_step rtc_initial ?revs)) ?revs' =
      foldl rtc_step (rtc_cleanup (foldl rtc_step rtc_initial ?revs))
        (filter (\<lambda>e. \<not> is_RtcLive e) ?revs')"
    using t m0 by blast
  then have C: "rtc_messages (rtc_screen
      (foldl rtc_step (rtc_cleanup (foldl rtc_step rtc_initial ?revs)) ?revs')) = [example_m1]"
    using b by (simp only: g) (simp add: rtc_cleanup_screen del: rtc_step.simps(1))
  show ?thesis
    using c a b s0 m0 A B C by blast
qed

text \<open>
  A subscription made after the teardown is a new channel instance, and its deliveries do
  reach the sequence. That is what the next run of the effect does. It is also what a load
  still in flight at the teardown does, because \<open>loadChatData\<close> (lines 144 to 155) is not
  cancelled: it goes on to call \<open>subscribeToMessages\<close>, and the teardown that has already
  run cannot remove that channel. In the first run below the channel closed has identity
  0 and the one opened afterwards has identity 1; in the second the teardown found the ref
  empty and closed nothing.
\<close>

lemma subscribe_after_teardown_delivers:
  "map cid (channels (supabase (foldl cs_step cs_initial [Subscribe ''p1'' 5]))) = [0]
   \<and> map cid (channels (supabase (foldl cs_step cs_initial
        [Subscribe ''p1'' 5, Cleanup, Fetched ''p1'' [ok (Some (Rows []))],
         Subscribe ''p1'' 7]))) = [1]
   \<and> messages (screen (foldl cs_step cs_initial
        [Subscribe ''p1'' 5, Cleanup, Fetched ''p1'' [ok (Some (Rows []))],
         Subscribe ''p1'' 7, Live (insert_event example_m1)])) = [example_m1]
   \<and> map cid (channels (supabase (foldl cs_step cs_initial [Cleanup]))) = []
   \<and> messages (screen (foldl cs_step cs_initial
        [Cleanup, Fetched ''p1'' [ok (Some (Rows []))], Subscribe ''p1'' 7,
         Live (insert_event example_m1)])) = [example_m1]"
  by (simp add: cs_initial_def no_channels_def fetchMessages_def ok_def rows_or_empty_def
      subscribeToMessages_def cleanup_def removeChannel_def open_channel_def dispatch_def
      deliver_to_def insert_event_def message_column_def handleNewMessage_def example_m1_def
      Let_def)

subsection \<open>C5: one channel per view\<close>

text \<open>
  C5: after any history of the patient chat screen at most one channel is registered.
  \<open>subscribeToMessages\<close> leaves exactly the channel it creates, which is the one the ref
  then holds; the identity of that channel is the number of earlier opens, so it differs
  from the identity of every channel opened before, in particular from the one torn down.
  The topic names of two opens for the same patient differ exactly when their
  \<open>Date.now()\<close> readings differ.
\<close>

theorem one_channel_per_view:
  "length (channels (supabase (foldl cs_step cs_initial evs))) \<le> 1
   \<and> channels (supabase (cs_step (foldl cs_step cs_initial evs) (Subscribe pid t))) =
       [\<lparr>cid = subscribes evs, topic = ''chat:'' @ pid @ '':'' @ decimal t,
         ch_table = ''messages'', ch_event = ''INSERT'', ch_filter = Eq ''patient_id'' pid,
         callback = handleNewMessage\<rparr>]
   \<and> channelRef (cs_step (foldl cs_step cs_initial evs) (Subscribe pid t)) =
       Some \<lparr>cid = subscribes evs, topic = ''chat:'' @ pid @ '':'' @ decimal t,
         ch_table = ''messages'', ch_event = ''INSERT'', ch_filter = Eq ''patient_id'' pid,
         callback = handleNewMessage\<rparr>
   \<and> subscribes evs \<notin> cid ` set (channels (supabase (foldl cs_step cs_initial evs)))
   \<and> ((''chat:'' @ pid @ '':'' @ decimal t = ''chat:'' @ pid @ '':'' @ decimal t') = (t = t'))"
  using cs_at_most_one [OF cs_inv_reachable, of evs]
    cs_subscribed_channels [OF cs_inv_reachable, of pid t evs]
    cs_subscribed_ref [of pid t "foldl cs_step cs_initial evs"]
    cs_fresh_cid [OF cs_inv_reachable, of evs]
  by (simp add: next_cid_reachable decimal_inject)

theorem one_channel_per_view_witness:
  "length (channels (supabase (foldl cs_step cs_initial
       [Subscribe ''p1'' 7, Live (insert_event example_m1), Subscribe ''p1'' 7]))) \<le> 1
   \<and> map cid (channels (supabase (cs_step (foldl cs_step cs_initial
       [Subscribe ''p1'' 7, Live (insert_event example_m1), Subscribe ''p1'' 7])
       (Subscribe ''p1'' 8)))) = [2]
   \<and> map topic (channels (supabase (cs_step (foldl cs_step cs_initial
       [Subscribe ''p1'' 7, Live (insert_event example_m1), Subscribe ''p1'' 7])
       (Subscribe ''p1'' 8)))) = [''chat:p1:8'']"
proof -
  have d: "decimal 8 = ''8''"
    by code_simp
  have n: "subscribes [Subscribe ''p1'' 7, Live (insert_event example_m1), Subscribe ''p1'' 7] = 2"
    by simp
  show ?thesis
    using one_channel_per_view
        [of "[Subscribe ''p1'' 7, Live (insert_event example_m1), Subscribe ''p1'' 7]" "''p1''" 8]
    by (simp only: n d) simp
qed

subsection \<open>C6: what the subscription filters on\<close>

text \<open>
  C6 says that an insert event of another conversation is never appended. In the sample
  store the conversation of patient \<open>p1\<close> with doctor \<open>d1\<close> is the chat \<open>c1\<close>. The
  patient chat screen opened for \<open>p1\<close> subscribes with the filter \<open>patient_id=eq.p1\<close>,
  so the message a second doctor sends to the same patient in chat \<open>c2\<close> is appended.
\<close>

theorem other_chat_of_same_patient_is_appended:
  "fst (serve example_stamp (SelectChatSingle ''p1'' ''d1'') example_store) = ok (Some (ChatId ''c1''))
   \<and> chat_id example_other = ''c2''
   \<and> messages (screen (foldl cs_step cs_initial
        [Subscribe ''p1'' 7, Live (insert_event example_other)])) = [example_other]"
  by (simp add: cs_initial_def no_channels_def example_store_def chats_of_def
      subscribeToMessages_def open_channel_def dispatch_def deliver_to_def insert_event_def
      message_column_def handleNewMessage_def example_other_def Let_def)

text \<open>
  C6 as amended: the patient chat screen appends an insert event exactly when its
  \<open>patient_id\<close> equals the screen's patient id (whatever its \<open>chat_id\<close>); the chat
  component appends an insert event exactly when its \<open>chat_id\<close> equals the component's
  chat id.
\<close>

theorem subscription_filters_on_view_key:
  "dispatch message_column (insert_event m)
      (supabase (cs_step (foldl cs_step cs_initial evs) (Subscribe pid t))) prev =
     (if patient_id m = pid then prev @ [m] else prev)
   \<and> dispatch message_column (insert_event m)
      (rtc_supabase (rtc_step (foldl rtc_step rtc_initial revs) (Mount chatId))) prev =
     (if chat_id m = chatId then prev @ [m] else prev)"
  using cs_subscribed_dispatch [OF cs_inv_reachable, of m pid t evs prev]
    rtc_mounted_dispatch [OF rtc_inv_reachable, of m revs chatId prev]
  by (simp del: rtc_step.simps(1))

theorem subscription_filters_on_view_key_witness:
  "dispatch message_column (insert_event example_other)
      (supabase (cs_step (foldl cs_step cs_initial [Subscribe ''p2'' 3]) (Subscribe ''p1'' 7)))
      [example_m1] = [example_m1, example_other]
   \<and> dispatch message_column (insert_event example_other)
      (rtc_supabase (rtc_step (foldl rtc_step rtc_initial [Mount ''c2'']) (Mount ''c1'')))
      [example_m1] = [example_m1]"
proof -
  have p: "patient_id example_other = ''p1''"
    by (simp add: example_other_def)
  have c: "chat_id example_other \<noteq> ''c1''"
    by (simp add: example_other_def)
  show ?thesis
    using p c
      subscription_filters_on_view_key
        [of example_other "[Subscribe ''p2'' 3]" "''p1''" 7 "[example_m1]" "[Mount ''c2'']" "''c1''"]
    by (simp only: if_True if_False append.simps refl simp_thms)
qed

subsection \<open>C7: sending a blank body\<close>

text \<open>
  C7 says that a blank body is rejected with a validation error. Both \<open>sendMessage\<close>
  functions return at once: no request, and the state, including the alerts, the console
  and the error shown on the screen, is what it was. No error is produced.
\<close>

theorem blank_send_reports_nothing:
  "replay (sendMessage ''p1'' blank_screen) [] blank_screen = ([], blank_screen, True)
   \<and> alerts blank_screen = [] \<and> console blank_screen = [] \<and> screen_error blank_screen = None
   \<and> replay (rtc_sendMessage ''c1'' ''u1'' blank_rtc) [] blank_rtc = ([], blank_rtc, True)
   \<and> rtc_console blank_rtc = []"
  by (simp add: sendMessage_def rtc_sendMessage_def blank_screen_def example_screen_def
      blank_rtc_def example_rtc_def trim_def isWhiteSpace_def)

text \<open>
  C7 as amended: when the body is empty after trimming, the send returns without issuing
  any request and without changing the screen state or the store; no error is raised or
  shown (patient chat screen and chat component).
\<close>

theorem blank_send_is_silent_no_op:
  "(trim (newMessage v) = [] \<longrightarrow>
      replay (sendMessage pid v) rs s = ([], s, True) \<and>
      run (sendMessage pid v) ts S s = ([], s, S, True))
   \<and> (trim (input u) = [] \<longrightarrow>
      replay (rtc_sendMessage c uid u) rs s' = ([], s', True) \<and>
      run (rtc_sendMessage c uid u) ts S s' = ([], s', S, True))"
  by (simp add: sendMessage_def rtc_sendMessage_def)

theorem blank_send_is_silent_no_op_witness:
  "trim (newMessage blank_screen) = []
   \<and> replay (sendMessage ''p1'' blank_screen) [ok None] example_screen = ([], example_screen, True)
   \<and> run (sendMessage ''p1'' blank_screen) [example_stamp] example_store example_screen =
       ([], example_screen, example_store, True)
   \<and> trim (input blank_rtc) = []
   \<and> replay (rtc_sendMessage ''c1'' ''u1'' blank_rtc) [ok None] example_rtc = ([], example_rtc, True)
   \<and> run (rtc_sendMessage ''c1'' ''u1'' blank_rtc) [example_stamp] example_store example_rtc =
       ([], example_rtc, example_store, True)"
proof -
  have a: "trim (newMessage blank_screen) = []"
    by (simp add: blank_screen_def example_screen_def trim_def isWhiteSpace_def)
  have b: "trim (input blank_rtc) = []"
    by (simp add: blank_rtc_def example_rtc_def trim_def isWhiteSpace_def)
  show ?thesis
    using a b
      blank_send_is_silent_no_op [of blank_screen "''p1''" "[ok None]" example_screen "[example_stamp]"
        example_store blank_rtc "''c1''" "''u1''" example_rtc]
    by blast
qed

subsection \<open>C8: a failed send\<close>

text \<open>
  C8 says that a failed append is surfaced to the caller. In the chat component
  \<open>sendMessage\<close> (lines 77 to 81) answers an error of the insert with \<open>console.error\<close>
  and nothing else: nothing is thrown, returned or shown, and the state is what it was.
  The first run is answered with a refusal by row-level security; the second runs against
  the sample store, which rejects the row because it lacks \<open>patient_id\<close> and
  \<open>sender_type\<close>.
\<close>

theorem rtc_failed_send_only_logged:
  "replay (rtc_sendMessage ''c1'' ''u1'' example_rtc) [refused] example_rtc =
     ([InsertMessage \<lparr>ins_message = [104, 105], ins_sender_id = ''u1'', ins_patient_id = None,
                       ins_chat_id = ''c1'', ins_sender_type = None\<rparr>],
      example_rtc\<lparr>rtc_console := [(''Error sending message:'', PostgrestError refused_error)]\<rparr>,
      True)
   \<and> run (rtc_sendMessage ''c1'' ''u1'' example_rtc) [example_stamp] example_store example_rtc =
     ([InsertMessage \<lparr>ins_message = [104, 105], ins_sender_id = ''u1'', ins_patient_id = None,
                       ins_chat_id = ''c1'', ins_sender_type = None\<rparr>],
      example_rtc\<lparr>rtc_console := [(''Error sending message:'',
           PostgrestError \<lparr>code = ''23502'',
              err_message = ''null value violates not-null constraint'',
              instanceof_Error = False\<rparr>)]\<rparr>,
      example_store, True)"
  by (simp add: rtc_sendMessage_def example_rtc_def refused_def refused_error_def failure_def
      trim_def isWhiteSpace_def)

text \<open>
  C8 as amended: no send ever changes the message sequence, whatever the store answers.
  When the insert of the message is answered with an error, on the path with an existing
  chat and on the path that creates the chat, the patient chat screen surfaces it: it
  logs the error, shows the alert "Failed to send message" and keeps the typed text. The
  chat component only logs the error to the console and keeps the typed text.
\<close>

theorem failed_send_reported_sequence_kept:
  "messages (fst (snd (replay (sendMessage pid v) rs s))) = messages s
   \<and> rtc_messages (fst (snd (replay (rtc_sendMessage c uid u) rs s'))) = rtc_messages s'
   \<and> (trim (newMessage v) \<noteq> [] \<and> currentDoctor v = Some doc \<and> \<not> sending v
        \<and> error r1 = None \<and> data r1 = Some (ChatId chatId) \<and> chatId \<noteq> []
        \<and> error r3 = Some e \<longrightarrow>
      replay (sendMessage pid v) (r1 # r3 # rs) s =
        ([SelectChatSingle pid (person_id doc),
          InsertMessage \<lparr>ins_message = trim (newMessage v), ins_sender_id = person_id doc,
                          ins_patient_id = Some pid, ins_chat_id = chatId,
                          ins_sender_type = Some ''doctor''\<rparr>],
         s\<lparr>console := console s @ [(''Error sending message:'', PostgrestError e)],
           alerts := alerts s @ [(''Error'', ''Failed to send message'')],
           sending := False\<rparr>, True))
   \<and> (trim (newMessage v) \<noteq> [] \<and> currentDoctor v = Some doc \<and> \<not> sending v
        \<and> data r1 = None \<and> error r1 = Some e1 \<and> code e1 = ''PGRST116'' \<and> error r2 = None \<and> data r2 = Some (ChatId chatId)
        \<and> error r3 = Some e \<longrightarrow>
      replay (sendMessage pid v) (r1 # r2 # r3 # rs) s =
        ([SelectChatSingle pid (person_id doc), InsertChat pid (person_id doc),
          InsertMessage \<lparr>ins_message = trim (newMessage v), ins_sender_id = person_id doc,
                          ins_patient_id = Some pid, ins_chat_id = chatId,
                          ins_sender_type = Some ''doctor''\<rparr>],
         s\<lparr>console := console s @ [(''Error sending message:'', PostgrestError e)],
           alerts := alerts s @ [(''Error'', ''Failed to send message'')],
           sending := False\<rparr>, True))
   \<and> (trim (input u) \<noteq> [] \<and> error r3 = Some e \<longrightarrow>
      replay (rtc_sendMessage c uid u) (r3 # rs) s' =
        ([InsertMessage \<lparr>ins_message = trim (input u), ins_sender_id = uid,
                          ins_patient_id = None, ins_chat_id = c, ins_sender_type = None\<rparr>],
         s'\<lparr>rtc_console := rtc_console s' @ [(''Error sending message:'', PostgrestError e)]\<rparr>,
         True))"
proof (intro conjI impI)
  show "messages (fst (snd (replay (sendMessage pid v) rs s))) = messages s"
    by (rule keeps_replay) (rule keeps_sendMessage)
  show "rtc_messages (fst (snd (replay (rtc_sendMessage c uid u) rs s'))) = rtc_messages s'"
    by (rule keeps_replay) (rule keeps_rtc_sendMessage)
next
  assume "trim (newMessage v) \<noteq> [] \<and> currentDoctor v = Some doc \<and> \<not> sending v
        \<and> error r1 = None \<and> data r1 = Some (ChatId chatId) \<and> chatId \<noteq> []
        \<and> error r3 = Some e"
  then show "replay (sendMessage pid v) (r1 # r3 # rs) s =
        ([SelectChatSingle pid (person_id doc),
          InsertMessage \<lparr>ins_message = trim (newMessage v), ins_sender_id = person_id doc,
                          ins_patient_id = Some pid, ins_chat_id = chatId,
                          ins_sender_type = Some ''doctor''\<rparr>],
         s\<lparr>console := console s @ [(''Error sending message:'', PostgrestError e)],
           alerts := alerts s @ [(''Error'', ''Failed to send message'')],
           sending := False\<rparr>, True)"
    by (simp add: sendMessage_def resolveConversation_def truthy_id_def
        replay_insert_message_failed)
next
  assume "trim (newMessage v) \<noteq> [] \<and> currentDoctor v = Some doc \<and> \<not> sending v
        \<and> data r1 = None \<and> error r1 = Some e1 \<and> code e1 = ''PGRST116'' \<and> error r2 = None \<and> data r2 = Some (ChatId chatId)
        \<and> error r3 = Some e"
  then show "replay (sendMessage pid v) (r1 # r2 # r3 # rs) s =
        ([SelectChatSingle pid (person_id doc), InsertChat pid (person_id doc),
          InsertMessage \<lparr>ins_message = trim (newMessage v), ins_sender_id = person_id doc,
                          ins_patient_id = Some pid, ins_chat_id = chatId,
                          ins_sender_type = Some ''doctor''\<rparr>],
         s\<lparr>console := console s @ [(''Error sending message:'', PostgrestError e)],
           alerts := alerts s @ [(''Error'', ''Failed to send message'')],
           sending := False\<rparr>, True)"
    by (simp add: sendMessage_def resolveConversation_def truthy_id_def failure_def
        replay_insert_message_failed)
next
  assume "trim (input u) \<noteq> [] \<and> error r3 = Some e"
  then show "replay (rtc_sendMessage c uid u) (r3 # rs) s' =
        ([InsertMessage \<lparr>ins_message = trim (input u), ins_sender_id = uid,
                          ins_patient_id = None, ins_chat_id = c, ins_sender_type = None\<rparr>],
         s'\<lparr>rtc_console := rtc_console s' @ [(''Error sending message:'', PostgrestError e)]\<rparr>,
         True)"
    by (simp add: rtc_sendMessage_def)
qed

theorem failed_send_reported_sequence_kept_witness:
  "(trim (newMessage example_screen) \<noteq> [] \<and> currentDoctor example_screen = Some example_doctor
      \<and> \<not> sending example_screen
      \<and> error (ok (Some (ChatId ''c1''))) = None
      \<and> data (ok (Some (ChatId ''c1''))) = Some (ChatId ''c1'') \<and> ''c1'' \<noteq> []
      \<and> error refused = Some refused_error)
   \<and> replay (sendMessage ''p1'' example_screen) [ok (Some (ChatId ''c1'')), refused] example_screen =
        ([SelectChatSingle ''p1'' (person_id example_doctor),
          InsertMessage \<lparr>ins_message = trim (newMessage example_screen),
                          ins_sender_id = person_id example_doctor,
                          ins_patient_id = Some ''p1'', ins_chat_id = ''c1'',
                          ins_sender_type = Some ''doctor''\<rparr>],
         example_screen\<lparr>console := console example_screen @
               [(''Error sending message:'', PostgrestError refused_error)],
           alerts := alerts example_screen @ [(''Error'', ''Failed to send message'')],
           sending := False\<rparr>, True)
   \<and> (data no_rows = None \<and> error no_rows = Some no_rows_error \<and> code no_rows_error = ''PGRST116''
      \<and> error (ok (Some (ChatId ''c5''))) = None
      \<and> data (ok (Some (ChatId ''c5''))) = Some (ChatId ''c5''))
   \<and> replay (sendMessage ''p1'' example_screen) [no_rows, ok (Some (ChatId ''c5'')), refused]
        example_screen =
        ([SelectChatSingle ''p1'' (person_id example_doctor),
          InsertChat ''p1'' (person_id example_doctor),
          InsertMessage \<lparr>ins_message = trim (newMessage example_screen),
                          ins_sender_id = person_id example_doctor,
                          ins_patient_id = Some ''p1'', ins_chat_id = ''c5'',
                          ins_sender_type = Some ''doctor''\<rparr>],
         example_screen\<lparr>console := console example_screen @
               [(''Error sending message:'', PostgrestError refused_error)],
           alerts := alerts example_screen @ [(''Error'', ''Failed to send message'')],
           sending := False\<rparr>, True)
   \<and> trim (input example_rtc) \<noteq> []
   \<and> replay (rtc_sendMessage ''c1'' ''u1'' example_rtc) [refused] example_rtc =
        ([InsertMessage \<lparr>ins_message = trim (input example_rtc), ins_sender_id = ''u1'',
                          ins_patient_id = None, ins_chat_id = ''c1'', ins_sender_type = None\<rparr>],
         example_rtc\<lparr>rtc_console := rtc_console example_rtc @
               [(''Error sending message:'', PostgrestError refused_error)]\<rparr>,
         True)
   \<and> messages example_screen = [example_m1]"
proof -
  note g = example_guard
  have r1: "error (ok (Some (ChatId ''c1''))) = None
      \<and> data (ok (Some (ChatId ''c1''))) = Some (ChatId ''c1'') \<and> ''c1'' \<noteq> []"
    by (simp add: ok_def)
  have r2: "data no_rows = None \<and> error no_rows = Some no_rows_error \<and> code no_rows_error = ''PGRST116''
      \<and> error (ok (Some (ChatId ''c5''))) = None
      \<and> data (ok (Some (ChatId ''c5''))) = Some (ChatId ''c5'')"
    by (simp add: ok_def no_rows_def no_rows_error_def failure_def)
  have r3: "error refused = Some refused_error"
    by (simp add: refused_def failure_def refused_error_def)
  have i: "trim (input example_rtc) \<noteq> []"
    by (simp add: example_rtc_def trim_def isWhiteSpace_def)
  have m: "messages example_screen = [example_m1]"
    by (simp add: example_screen_def)
  have A: "replay (sendMessage ''p1'' example_screen) [ok (Some (ChatId ''c1'')), refused] example_screen =
        ([SelectChatSingle ''p1'' (person_id example_doctor),
          InsertMessage \<lparr>ins_message = trim (newMessage example_screen),
                          ins_sender_id = person_id example_doctor,
                          ins_patient_id = Some ''p1'', ins_chat_id = ''c1'',
                          ins_sender_type = Some ''doctor''\<rparr>],
         example_screen\<lparr>console := console example_screen @
               [(''Error sending message:'', PostgrestError refused_error)],
           alerts := alerts example_screen @ [(''Error'', ''Failed to send message'')],
           sending := False\<rparr>, True)"
    using g r1 r3
      failed_send_reported_sequence_kept [of "''p1''" example_screen "[]" example_screen "''c1''" "''u1''" example_rtc
        example_rtc example_doctor "ok (Some (ChatId ''c1''))" "''c1''" refused refused_error]
    by blast
  have B: "replay (sendMessage ''p1'' example_screen) [no_rows, ok (Some (ChatId ''c5'')), refused]
        example_screen =
        ([SelectChatSingle ''p1'' (person_id example_doctor),
          InsertChat ''p1'' (person_id example_doctor),
          InsertMessage \<lparr>ins_message = trim (newMessage example_screen),
                          ins_sender_id = person_id example_doctor,
                          ins_patient_id = Some ''p1'', ins_chat_id = ''c5'',
                          ins_sender_type = Some ''doctor''\<rparr>],
         example_screen\<lparr>console := console example_screen @
               [(''Error sending message:'', PostgrestError refused_error)],
           alerts := alerts example_screen @ [(''Error'', ''Failed to send message'')],
           sending := False\<rparr>, True)"
    using g r2 r3
      failed_send_reported_sequence_kept [of "''p1''" example_screen "[]" example_screen "''c1''" "''u1''" example_rtc
        example_rtc example_doctor no_rows "''c5''" refused refused_error
        no_rows_error "ok (Some (ChatId ''c5''))"]
    by blast
  have C: "replay (rtc_sendMessage ''c1'' ''u1'' example_rtc) [refused] example_rtc =
        ([InsertMessage \<lparr>ins_message = trim (input example_rtc), ins_sender_id = ''u1'',
                          ins_patient_id = None, ins_chat_id = ''c1'', ins_sender_type = None\<rparr>],
         example_rtc\<lparr>rtc_console := rtc_console example_rtc @
               [(''Error sending message:'', PostgrestError refused_error)]\<rparr>,
         True)"
    using i r3
      failed_send_reported_sequence_kept [of "''p1''" example_screen "[]" example_screen "''c1''" "''u1''" example_rtc
        example_rtc example_doctor no_rows "''c5''" refused refused_error
        no_rows_error "ok (Some (ChatId ''c5''))"]
    by blast
  show ?thesis
    using g r1 r2 r3 i m A B C by blast
qed

subsection \<open>C9: the historical fetch\<close>

text \<open>
  C9 says that the fetch returns the messages of the conversation, nothing for a new
  conversation. The patient chat screen queries by \<open>patient_id\<close>. In the sample store
  doctor \<open>d3\<close> has no chat with patient \<open>p1\<close> and has sent nothing, yet the screen
  opened for \<open>p1\<close> fetches the two messages of the patient's chats with other doctors.
\<close>

theorem fetch_for_new_pair_not_empty:
  "chats_of ''p1'' ''d3'' example_store = []
   \<and> ''d3'' \<notin> set (map sender_id (msgs example_store))
   \<and> messages (fst (snd (run (fetchMessages ''p1'') [example_stamp] example_store
        (screen cs_initial)))) = [example_m1, example_other]"
  by (simp add: example_store_def chats_of_def fetchMessages_def ok_def rows_or_empty_def
      select_messages_def message_column_def example_m1_def example_other_def)

text \<open>
  C9 as amended. The fetch sets the sequence to the stored messages whose \<open>patient_id\<close>
  (patient chat screen) or \<open>chat_id\<close> (chat component) equals the view's key, each once,
  ordered by \<open>created_at\<close> ascending, and to the empty sequence when no stored message
  carries the key. After a send from the patient chat screen that passes the guard, with
  an existing chat or with a chat created by this send, whose message the store stamps
  with an unused id and an instant later than those of the messages stored under the
  key, the fetch returns the previous result followed by the new message.
\<close>

theorem fetch_sorted_by_key_append_at_tail:
  "messages (fst (snd (run (fetchMessages pid) (t # ts) S s))) =
     select_messages (Eq ''patient_id'' pid) S
   \<and> rtc_messages (fst (snd (run (rtc_fetchMessages chatId) (t # ts) S u))) =
     select_messages (Eq ''chat_id'' chatId) S
   \<and> sorted (map created_at (select_messages flt S))
   \<and> mset (select_messages flt S) = mset (filter (matches message_column flt) (msgs S))
   \<and> (filter (matches message_column flt) (msgs S) = [] \<longrightarrow> select_messages flt S = [])
   \<and> (trim (newMessage v) \<noteq> [] \<and> currentDoctor v = Some doc \<and> \<not> sending v
        \<and> chats_of pid (person_id doc) S = [c] \<and> chat_row_id c \<noteq> []
        \<and> uuid t2 \<notin> set (map row_id (msgs S))
        \<and> (\<forall>m\<in>set (select_messages (Eq ''patient_id'' pid) S). created_at m < now t2) \<longrightarrow>
      messages (fst (snd (run (fetchMessages pid) [t3]
          (fst (snd (snd (run (sendMessage pid v) [t1, t2] S v)))) s))) =
        select_messages (Eq ''patient_id'' pid) S @
          [\<lparr>row_id = uuid t2, chat_id = chat_row_id c, created_at = now t2,
            message = trim (newMessage v), patient_id = pid, sender_id = person_id doc,
            sender_type = ''doctor''\<rparr>])
   \<and> (trim (newMessage v) \<noteq> [] \<and> currentDoctor v = Some doc \<and> \<not> sending v
        \<and> chats_of pid (person_id doc) S = [] \<and> uuid t2 \<notin> set (map chat_row_id (chats S))
        \<and> uuid t3 \<notin> set (map row_id (msgs S))
        \<and> (\<forall>m\<in>set (select_messages (Eq ''patient_id'' pid) S). created_at m < now t3) \<longrightarrow>
      messages (fst (snd (run (fetchMessages pid) [t4]
          (fst (snd (snd (run (sendMessage pid v) [t1, t2, t3] S v)))) s))) =
        select_messages (Eq ''patient_id'' pid) S @
          [\<lparr>row_id = uuid t3, chat_id = uuid t2, created_at = now t3,
            message = trim (newMessage v), patient_id = pid, sender_id = person_id doc,
            sender_type = ''doctor''\<rparr>])"
proof (intro conjI impI)
  show "messages (fst (snd (run (fetchMessages pid) (t # ts) S s))) =
     select_messages (Eq ''patient_id'' pid) S"
    by (rule run_fetchMessages)
  show "rtc_messages (fst (snd (run (rtc_fetchMessages chatId) (t # ts) S u))) =
     select_messages (Eq ''chat_id'' chatId) S"
    by (rule run_rtc_fetchMessages)
  show "sorted (map created_at (select_messages flt S))"
    by (rule select_messages_sorted)
  show "mset (select_messages flt S) = mset (filter (matches message_column flt) (msgs S))"
    by (rule select_messages_mset)
next
  assume "filter (matches message_column flt) (msgs S) = []"
  then show "select_messages flt S = []"
    by (simp add: select_messages_def)
next
  assume h: "trim (newMessage v) \<noteq> [] \<and> currentDoctor v = Some doc \<and> \<not> sending v
        \<and> chats_of pid (person_id doc) S = [c] \<and> chat_row_id c \<noteq> []
        \<and> uuid t2 \<notin> set (map row_id (msgs S))
        \<and> (\<forall>m\<in>set (select_messages (Eq ''patient_id'' pid) S). created_at m < now t2)"
  have "run (sendMessage pid v) [t1, t2] S v =
      (case run (insert_message pid (person_id doc) (newMessage v) (chat_row_id c)) [t2] S
              (v\<lparr>sending := True\<rparr>) of
         (qs, x) \<Rightarrow> (SelectChatSingle pid (person_id doc) # qs, x))"
    using h by (intro run_send_existing_chat) blast+
  then have "fst (snd (snd (run (sendMessage pid v) [t1, t2] S v))) =
      fst (snd (snd (run (insert_message pid (person_id doc) (newMessage v) (chat_row_id c)) [t2] S
              (v\<lparr>sending := True\<rparr>))))"
    by (simp add: split_beta)
  then show "messages (fst (snd (run (fetchMessages pid) [t3]
          (fst (snd (snd (run (sendMessage pid v) [t1, t2] S v)))) s))) =
        select_messages (Eq ''patient_id'' pid) S @
          [\<lparr>row_id = uuid t2, chat_id = chat_row_id c, created_at = now t2,
            message = trim (newMessage v), patient_id = pid, sender_id = person_id doc,
            sender_type = ''doctor''\<rparr>]"
    using h fetch_after_insert_message [of t2 S pid t3 "person_id doc" "newMessage v"
        "chat_row_id c" "v\<lparr>sending := True\<rparr>" s]
    by simp
next
  assume h: "trim (newMessage v) \<noteq> [] \<and> currentDoctor v = Some doc \<and> \<not> sending v
        \<and> chats_of pid (person_id doc) S = [] \<and> uuid t2 \<notin> set (map chat_row_id (chats S))
        \<and> uuid t3 \<notin> set (map row_id (msgs S))
        \<and> (\<forall>m\<in>set (select_messages (Eq ''patient_id'' pid) S). created_at m < now t3)"
  let ?S1 = "S\<lparr>chats := chats S @ [\<lparr>chat_row_id = uuid t2, chat_patient_id = pid,
                   chat_doctor_id = person_id doc, chat_created_at = now t2\<rparr>]\<rparr>"
  have "run (sendMessage pid v) [t1, t2, t3] S v =
      (case run (insert_message pid (person_id doc) (newMessage v) (uuid t2)) [t3] ?S1
              (v\<lparr>sending := True\<rparr>) of
         (qs, x) \<Rightarrow> (SelectChatSingle pid (person_id doc) # InsertChat pid (person_id doc) # qs, x))"
    using h by (intro run_send_new_chat) blast+
  then have st: "fst (snd (snd (run (sendMessage pid v) [t1, t2, t3] S v))) =
      fst (snd (snd (run (insert_message pid (person_id doc) (newMessage v) (uuid t2)) [t3] ?S1
              (v\<lparr>sending := True\<rparr>))))"
    by (simp add: split_beta)
  have sel: "select_messages (Eq ''patient_id'' pid) ?S1 = select_messages (Eq ''patient_id'' pid) S"
    by (simp add: select_messages_def)
  have "messages (fst (snd (run (fetchMessages pid) [t4]
            (fst (snd (snd (run (insert_message pid (person_id doc) (newMessage v) (uuid t2)) [t3] ?S1
               (v\<lparr>sending := True\<rparr>))))) s))) =
         select_messages (Eq ''patient_id'' pid) ?S1 @
           [\<lparr>row_id = uuid t3, chat_id = uuid t2, created_at = now t3,
             message = trim (newMessage v), patient_id = pid, sender_id = person_id doc,
             sender_type = ''doctor''\<rparr>]"
    using h by (intro fetch_after_insert_message) (simp_all add: sel)
  then show "messages (fst (snd (run (fetchMessages pid) [t4]
          (fst (snd (snd (run (sendMessage pid v) [t1, t2, t3] S v)))) s))) =
        select_messages (Eq ''patient_id'' pid) S @
          [\<lparr>row_id = uuid t3, chat_id = uuid t2, created_at = now t3,
            message = trim (newMessage v), patient_id = pid, sender_id = person_id doc,
            sender_type = ''doctor''\<rparr>]"
    by (simp only: st sel)
qed

theorem fetch_sorted_by_key_append_at_tail_witness:
  "(filter (matches message_column (Eq ''chat_id'' ''c9'')) (msgs example_store) = []
      \<and> select_messages (Eq ''chat_id'' ''c9'') example_store = [])
   \<and> (chats_of ''p1'' (person_id example_doctor) example_store = [example_chat]
      \<and> chat_row_id example_chat \<noteq> []
      \<and> uuid example_stamp \<notin> set (map row_id (msgs example_store))
      \<and> list_all (\<lambda>m. created_at m < now example_stamp)
           (select_messages (Eq ''patient_id'' ''p1'') example_store))
   \<and> messages (fst (snd (run (fetchMessages ''p1'') [stamp_b]
          (fst (snd (snd (run (sendMessage ''p1'' example_screen) [stamp_a, example_stamp]
              example_store example_screen)))) example_screen))) =
        select_messages (Eq ''patient_id'' ''p1'') example_store @
          [\<lparr>row_id = uuid example_stamp, chat_id = chat_row_id example_chat,
            created_at = now example_stamp, message = trim (newMessage example_screen),
            patient_id = ''p1'', sender_id = person_id example_doctor,
            sender_type = ''doctor''\<rparr>]
   \<and> (chats_of ''p1'' (person_id example_doctor) empty_store = []
      \<and> uuid stamp_a \<notin> set (map chat_row_id (chats empty_store))
      \<and> uuid example_stamp \<notin> set (map row_id (msgs empty_store))
      \<and> list_all (\<lambda>m. created_at m < now example_stamp)
           (select_messages (Eq ''patient_id'' ''p1'') empty_store))
   \<and> messages (fst (snd (run (fetchMessages ''p1'') [stamp_b]
          (fst (snd (snd (run (sendMessage ''p1'' example_screen)
              [stamp_b, stamp_a, example_stamp] empty_store example_screen)))) example_screen))) =
        select_messages (Eq ''patient_id'' ''p1'') empty_store @
          [\<lparr>row_id = uuid example_stamp, chat_id = uuid stamp_a,
            created_at = now example_stamp, message = trim (newMessage example_screen),
            patient_id = ''p1'', sender_id = person_id example_doctor,
            sender_type = ''doctor''\<rparr>]"
proof -
  note g = example_guard
  have e: "filter (matches message_column (Eq ''chat_id'' ''c9'')) (msgs example_store) = []"
    by (simp add: example_store_def message_column_def example_m1_def example_other_def)
  have a: "chats_of ''p1'' (person_id example_doctor) example_store = [example_chat]
      \<and> chat_row_id example_chat \<noteq> []
      \<and> uuid example_stamp \<notin> set (map row_id (msgs example_store))"
    by (simp add: chats_of_def example_store_def example_doctor_def example_chat_def
        example_stamp_def example_m1_def example_other_def)
  have sel: "select_messages (Eq ''patient_id'' ''p1'') example_store = [example_m1, example_other]"
    by (simp add: select_messages_def example_store_def message_column_def example_m1_def
        example_other_def)
  have a': "list_all (\<lambda>m. created_at m < now example_stamp)
           (select_messages (Eq ''patient_id'' ''p1'') example_store)"
    by (simp add: sel example_m1_def example_other_def example_stamp_def)
  have b: "chats_of ''p1'' (person_id example_doctor) empty_store = []
      \<and> uuid stamp_a \<notin> set (map chat_row_id (chats empty_store))
      \<and> uuid example_stamp \<notin> set (map row_id (msgs empty_store))"
    by (simp add: chats_of_def empty_store_def)
  have b': "list_all (\<lambda>m. created_at m < now example_stamp)
           (select_messages (Eq ''patient_id'' ''p1'') empty_store)"
    by (simp add: select_messages_def empty_store_def)
  have E: "select_messages (Eq ''chat_id'' ''c9'') example_store = []"
    using e fetch_sorted_by_key_append_at_tail [where flt = "Eq ''chat_id'' ''c9''" and S = example_store]
    by blast
  have A: "messages (fst (snd (run (fetchMessages ''p1'') [stamp_b]
          (fst (snd (snd (run (sendMessage ''p1'' example_screen) [stamp_a, example_stamp]
              example_store example_screen)))) example_screen))) =
        select_messages (Eq ''patient_id'' ''p1'') example_store @
          [\<lparr>row_id = uuid example_stamp, chat_id = chat_row_id example_chat,
            created_at = now example_stamp, message = trim (newMessage example_screen),
            patient_id = ''p1'', sender_id = person_id example_doctor,
            sender_type = ''doctor''\<rparr>]"
    using g a a' [unfolded list_all_iff]
      fetch_sorted_by_key_append_at_tail [where v = example_screen and doc = example_doctor and pid = "''p1''"
        and S = example_store and c = example_chat and ?t1.0 = stamp_a and ?t2.0 = example_stamp
        and ?t3.0 = stamp_b and s = example_screen]
    by blast
  have B: "messages (fst (snd (run (fetchMessages ''p1'') [stamp_b]
          (fst (snd (snd (run (sendMessage ''p1'' example_screen)
              [stamp_b, stamp_a, example_stamp] empty_store example_screen)))) example_screen))) =
        select_messages (Eq ''patient_id'' ''p1'') empty_store @
          [\<lparr>row_id = uuid example_stamp, chat_id = uuid stamp_a,
            created_at = now example_stamp, message = trim (newMessage example_screen),
            patient_id = ''p1'', sender_id = person_id example_doctor,
            sender_type = ''doctor''\<rparr>]"
    using g b b' [unfolded list_all_iff]
      fetch_sorted_by_key_append_at_tail [where v = example_screen and doc = example_doctor and pid = "''p1''"
        and S = empty_store and ?t1.0 = stamp_b and ?t2.0 = stamp_a
        and ?t3.0 = example_stamp and ?t4.0 = stamp_b and s = example_screen]
    by blast
  show ?thesis
    using e a a' b b' E A B by blast
qed

subsection \<open>C10: the pair-keyed screen never receives the user's own messages live\<close>

text \<open>
  C10: when the chat partner is not the signed-in user, an event that passes the filter
  \<open>receiver_id=eq.user.id\<close> cannot satisfy the second branch of the callback's test
  (sender is the user and receiver is the partner), and no event whose sender is the
  user changes the sequence.
\<close>

theorem own_messages_never_arrive_live:
  "userId \<noteq> user_id \<Longrightarrow>
     (matches direct_column (Eq ''receiver_id'' user_id) m \<longrightarrow>
        \<not> (dm_sender_id m = user_id \<and> dm_receiver_id m = userId))
     \<and> (dm_sender_id (new ev) = user_id \<longrightarrow>
        dispatch direct_column ev (dm_subscribe (Some user_id) userId no_channels) prev = prev)"
  by (auto simp add: direct_column_def dm_subscribe_def open_channel_def no_channels_def
      dispatch_def deliver_to_def dm_on_insert_def Let_def)

theorem own_messages_never_arrive_live_witness:
  "''u2'' \<noteq> ''u1''
   \<and> matches direct_column (Eq ''receiver_id'' ''u1'') example_dm_in
   \<and> \<not> (dm_sender_id example_dm_in = ''u1'' \<and> dm_receiver_id example_dm_in = ''u2'')
   \<and> dm_sender_id (new (insert_event example_dm_out)) = ''u1''
   \<and> dispatch direct_column (insert_event example_dm_out)
        (dm_subscribe (Some ''u1'') ''u2'' no_channels) [example_dm_in] = [example_dm_in]"
proof -
  have ne: "''u2'' \<noteq> ''u1''"
    by simp
  have m: "matches direct_column (Eq ''receiver_id'' ''u1'') example_dm_in"
    by (simp add: direct_column_def example_dm_in_def)
  have s: "dm_sender_id (new (insert_event example_dm_out)) = ''u1''"
    by (simp add: insert_event_def example_dm_out_def)
  show ?thesis
    using ne m s
      own_messages_never_arrive_live
        [OF ne, of example_dm_in "insert_event example_dm_out" "[example_dm_in]"]
    by blast
qed

end
